theory Spec2Isabelle
  imports Complex_Main
begin

section \<open>Errors\<close>

text \<open>
  Every way the Python code stops without a result is a value: a failed \<open>assert\<close>
  with its message, a missing dictionary key, an integer or float division by zero,
  a call of \<open>exit()\<close>, a numpy call that rejects its argument, an index out of
  range, a call or an operation on a value of the wrong kind, and a read of an
  attribute that was never set.
\<close>

datatype error =
    AssertionError string
  | KeyError string
  | ZeroDivisionError
  | SystemExit
  | ValueError
  | IndexError
  | TypeError
  | AttributeError

section \<open>Training options (\<open>BayesNet.setTrainOptions\<close>)\<close>

text \<open>
  The options are a Python dict; only the presence of keys is inspected, so the
  values stay polymorphic. The asserts run in the order of the source, and the first
  one that fails raises with its own message (the message of the \<open>start_elbo\<close>
  check names \<open>gpu_mode\<close> in the source). On success the dict is stored unchanged
  in \<open>self.options\<close>, which is the value returned here.
\<close>

definition setTrainOptions :: "(string \<rightharpoonup> 'v) \<Rightarrow> error + (string \<rightharpoonup> 'v)" where
  "setTrainOptions train_opts =
    (if ''maxiter'' \<notin> dom train_opts
       then Inl (AssertionError '''maxiter' not found in the training options dictionary'')
     else if ''start_drop'' \<notin> dom train_opts
       then Inl (AssertionError '''start_drop' not found in the training options dictionary'')
     else if ''freq_drop'' \<notin> dom train_opts
       then Inl (AssertionError '''freq_drop' not found in the training options dictionary'')
     else if ''verbose'' \<notin> dom train_opts
       then Inl (AssertionError '''verbose' not found in the training options dictionary'')
     else if ''quiet'' \<notin> dom train_opts
       then Inl (AssertionError '''quiet' not found in the training options dictionary'')
     else if ''tolerance'' \<notin> dom train_opts
       then Inl (AssertionError '''tolerance' not found in the training options dictionary'')
     else if ''convergence_mode'' \<notin> dom train_opts
       then Inl (AssertionError '''convergence_mode' not found in the training options dictionary'')
     else if ''forceiter'' \<notin> dom train_opts
       then Inl (AssertionError '''forceiter' not found in the training options dictionary'')
     else if ''schedule'' \<notin> dom train_opts
       then Inl (AssertionError '''schedule' not found in the training options dictionary'')
     else if ''start_sparsity'' \<notin> dom train_opts
       then Inl (AssertionError '''start_sparsity' not found in the training options dictionary'')
     else if ''gpu_mode'' \<notin> dom train_opts
       then Inl (AssertionError '''gpu_mode' not found in the training options dictionary'')
     else if ''start_elbo'' \<notin> dom train_opts
       then Inl (AssertionError '''gpu_mode' not found in the training options dictionary'')
     else Inr train_opts)"

text \<open>The keys the asserts of \<open>setTrainOptions\<close> look for, in source order.\<close>

definition asserted_keys :: "string list" where
  "asserted_keys =
    [''maxiter'', ''start_drop'', ''freq_drop'', ''verbose'', ''quiet'', ''tolerance'',
     ''convergence_mode'', ''forceiter'', ''schedule'', ''start_sparsity'', ''gpu_mode'',
     ''start_elbo'']"

text \<open>
  The required keys as the specification lists them (its section on external
  interfaces); this list follows the specification's words, not the code.
\<close>

definition spec_required_keys :: "string list" where
  "spec_required_keys =
    [''maxiter'', ''start_drop'', ''freq_drop'', ''verbose'', ''quiet'', ''tolerance'',
     ''convergence_mode'', ''forceiter'', ''schedule'', ''start_sparsity'', ''gpu_mode'',
     ''start_elbo'', ''elbofreq'', ''drop'', ''stochastic'']"

text \<open>
  An options dict that holds every key of the specification's list except
  \<open>elbofreq\<close> (the values play no role).
\<close>

definition opts_without_elbofreq :: "string \<rightharpoonup> unit" where
  "opts_without_elbofreq =
    map_of (map (\<lambda>k. (k, ())) (filter (\<lambda>k. k \<noteq> ''elbofreq'') spec_required_keys))"

section \<open>Convergence test (\<open>BayesNet.assess_convergence\<close>)\<close>

text \<open>
  The threshold chosen by \<open>self.options["convergence_mode"]\<close>; any other mode
  prints a message and calls \<open>exit()\<close>.
\<close>

definition convergence_threshold :: "string \<Rightarrow> error + real" where
  "convergence_threshold convergence_mode =
    (if convergence_mode = ''fast'' then Inr 0.00001
     else if convergence_mode = ''medium'' then Inr 0.000001
     else if convergence_mode = ''slow'' then Inr 0.0000001
     else Inl SystemExit)"

text \<open>
  The test \<open>100*abs(delta_elbo/first_elbo) < convergence_threshold\<close>. Both operands
  are numpy floats read from the ELBO table, so a zero \<open>first_elbo\<close> does not raise:
  the quotient is infinite or not a number and the comparison is false. In HOL
  \<open>x / 0 = 0\<close>, so that case is written out.
\<close>

definition below_threshold :: "real \<Rightarrow> real \<Rightarrow> real \<Rightarrow> bool" where
  "below_threshold delta_elbo first_elbo thr =
    (first_elbo \<noteq> 0 \<and> 100 * \<bar>delta_elbo / first_elbo\<bar> < thr)"

definition assess_convergence :: "string \<Rightarrow> real \<Rightarrow> real \<Rightarrow> int \<Rightarrow> error + (int \<times> bool)" where
  "assess_convergence convergence_mode delta_elbo first_elbo convergence_token =
    (case convergence_threshold convergence_mode of
       Inl e \<Rightarrow> Inl e
     | Inr thr \<Rightarrow>
         if below_threshold delta_elbo first_elbo thr
         then Inr (convergence_token + 1, convergence_token + 1 = 5)
         else Inr (1, False))"

text \<open>
  The calls the training loop makes at its successive assessed checkpoints: each call
  receives the counter returned by the previous one, and the loop leaves at the first
  call that reports convergence. The result is the counter at the end and, when
  convergence was declared, the number (from 1) of the check that declared it.
\<close>

fun assess_checks :: "string \<Rightarrow> real \<Rightarrow> int \<Rightarrow> real list \<Rightarrow> error + (int \<times> nat option)" where
  "assess_checks mode first_elbo token [] = Inr (token, None)"
| "assess_checks mode first_elbo token (d # ds) =
    (case assess_convergence mode d first_elbo token of
       Inl e \<Rightarrow> Inl e
     | Inr (token', converged) \<Rightarrow>
         if converged then Inr (token', Some 1)
         else (case assess_checks mode first_elbo token' ds of
                 Inl e \<Rightarrow> Inl e
               | Inr (t, r) \<Rightarrow> Inr (t, map_option Suc r)))"

section \<open>The node registry\<close>

text \<open>
  The nodes themselves (their classes, with \<open>update\<close>, \<open>calculateELBO\<close>,
  \<open>removeFactors\<close>, \<open>precompute\<close>, \<open>define_mini_batch\<close> and the expectation
  getters) are objects that refer to each other through their Markov blankets, so a
  method of one node may read any other. Their joint state is one value of an
  arbitrary type \<open>'w\<close>, and the methods the orchestrator calls are the fields of a
  record of functions on it, each taking the name of the node it is called on.
\<close>

type_synonym matrix = "real list list"

text \<open>
  A Python number that is a float or, after a fractional power of a negative float, a
  complex number. The arguments of \<open>update\<close>: none in the plain loop, the batch
  indices (or \<open>None\<close>) and the step size in the stochastic loop.
\<close>

datatype py_number = PyFloat real | PyComplex complex

datatype update_args = NoArgs | MiniBatch "nat list option" py_number

record 'w node_methods =
  node_names :: "string list"
  is_variational :: "string \<Rightarrow> bool"
  node_calculateELBO :: "string \<Rightarrow> 'w \<Rightarrow> real"
  node_update :: "string \<Rightarrow> update_args \<Rightarrow> 'w \<Rightarrow> 'w"
  node_removeFactors :: "string \<Rightarrow> nat list \<Rightarrow> 'w \<Rightarrow> 'w"
  node_precompute :: "string \<Rightarrow> 'w \<Rightarrow> 'w"
  node_define_mini_batch :: "string \<Rightarrow> nat list \<Rightarrow> 'w \<Rightarrow> 'w"
  set_TauTrick :: "bool \<Rightarrow> 'w \<Rightarrow> 'w"
  Z_expectation :: "'w \<Rightarrow> matrix"
  W_expectation :: "'w \<Rightarrow> matrix list"
  Y_expectation :: "'w \<Rightarrow> (matrix \<times> bool list list) list"
  AlphaZ_groups :: "'w \<Rightarrow> nat list"

text \<open>\<open>BayesNet.getVariationalNodes\<close>: the names of the variational nodes, in dict order.\<close>

definition getVariationalNodes :: "'w node_methods \<Rightarrow> string list" where
  "getVariationalNodes nm = filter (is_variational nm) (node_names nm)"

section \<open>The ELBO record (\<open>BayesNet.calculateELBO\<close>)\<close>

text \<open>
  A \<open>pandas.Series\<close> of floats indexed by labels is a list of pairs, in index order.
  Reading a label that is absent raises \<open>KeyError\<close>; writing a label writes every
  entry that carries it. Floats are real numbers here, so a sum is exact.
\<close>

type_synonym series = "(string \<times> real) list"

definition series_get :: "series \<Rightarrow> string \<Rightarrow> error + real" where
  "series_get s l = (case map_of s l of None \<Rightarrow> Inl (KeyError l) | Some v \<Rightarrow> Inr v)"

definition series_set :: "series \<Rightarrow> string \<Rightarrow> real \<Rightarrow> series" where
  "series_set s l v = map (\<lambda>(k, x). if k = l then (k, v) else (k, x)) s"

text \<open>
  The loop of \<open>calculateELBO\<close>: for each node, \<open>elbo[node] = float(...)\<close> and then
  \<open>elbo["total"] += elbo[node]\<close>. A name that is not in the registry raises
  \<open>KeyError\<close> at \<open>self.nodes[node]\<close>.
\<close>

fun calculateELBO_loop :: "'w node_methods \<Rightarrow> 'w \<Rightarrow> string list \<Rightarrow> series \<Rightarrow> error + series" where
  "calculateELBO_loop nm w [] elbo = Inr elbo"
| "calculateELBO_loop nm w (node # nodes) elbo =
    (if node \<notin> set (node_names nm) then Inl (KeyError node)
     else
       let elbo1 = series_set elbo node (node_calculateELBO nm node w) in
       (case series_get elbo1 node of
          Inl e \<Rightarrow> Inl e
        | Inr v \<Rightarrow>
            (case series_get elbo1 ''total'' of
               Inl e \<Rightarrow> Inl e
             | Inr t \<Rightarrow> calculateELBO_loop nm w nodes (series_set elbo1 ''total'' (t + v)))))"

definition calculateELBO :: "'w node_methods \<Rightarrow> 'w \<Rightarrow> string list \<Rightarrow> error + series" where
  "calculateELBO nm w nodes =
    (let nodes' = (if length nodes = 0 then getVariationalNodes nm else nodes);
         elbo = map (\<lambda>n. (n, 0)) nodes' @ [(''total'', 0)]
     in calculateELBO_loop nm w nodes' elbo)"

text \<open>
  The two sides of the ledger invariant, read off a record: its \<open>total\<close> field, and
  the sum of its other fields (one per node).
\<close>

definition record_total :: "series \<Rightarrow> error + real" where
  "record_total row = series_get row ''total''"

definition record_node_sum :: "series \<Rightarrow> real" where
  "record_node_sum row = sum_list (map snd (filter (\<lambda>(k, x). k \<noteq> ''total'') row))"

section \<open>The network and its options\<close>

text \<open>
  The options the two training loops read from \<open>self.options\<close>, with the types
  the loops use them at (\<open>drop_min_r2\<close> is \<open>options['drop']["min_r2"]\<close>, which may be
  \<open>None\<close>). The last four are read by the stochastic network only.
\<close>

record train_options =
  maxiter :: int
  start_drop :: int
  freq_drop :: int
  convergence_mode :: string
  forceiter :: bool
  schedule :: "string list"
  start_sparsity :: int
  start_elbo :: int
  elbofreq :: int
  drop_min_r2 :: "real option"
  Y_ELBO_TauTrick :: bool
  batch_size :: real
  learning_rate :: real
  forgetting_rate :: real
  start_stochastic :: int

text \<open>
  The object: the dimensions \<open>self.dim\<close> (\<open>K\<close> is the one that changes), the joint
  state of the nodes, and \<open>self.shuffled_ix\<close>, an attribute that does not exist until
  the first epoch sets it.
\<close>

record 'w bayesnet =
  dim_N :: nat
  dim_M :: nat
  dim_K :: int
  dim_G :: nat
  node_state :: 'w
  shuffled_ix :: "nat list option"

section \<open>Variance explained (\<open>BayesNet.calculate_variance_explained\<close>)\<close>

text \<open>
  A float that may fail to be a finite number: \<open>1. - Res_k/SS\<close> is \<open>nan\<close> or
  \<open>-inf\<close> when \<open>SS\<close> is zero (numpy floats do not raise). Neither exceeds a
  threshold, which is all the code asks of such an entry.
\<close>

type_synonym fmatrix = "real option list list"

definition exceeds :: "real option \<Rightarrow> real \<Rightarrow> bool" where
  "exceeds x t = (case x of None \<Rightarrow> False | Some v \<Rightarrow> v > t)"

text \<open>
  The arrays the function allocates live in a store, a list of matrices addressed by
  position, because \<open>[ s.zeros([M, K]) ] * G\<close> builds one matrix and a list of \<open>G\<close>
  references to it: a write through \<open>r2[g]\<close> is a write to that one matrix.
\<close>

type_synonym heap = "fmatrix list"

definition heap_write :: "heap \<Rightarrow> nat \<Rightarrow> nat \<Rightarrow> nat \<Rightarrow> real option \<Rightarrow> heap" where
  "heap_write h a m k v = h[a := (h ! a)[m := (h ! a ! m)[k := v]]]"

text \<open>The rows selected by \<open>gg = groups==g\<close>.\<close>

definition group_rows :: "nat list \<Rightarrow> nat \<Rightarrow> nat list" where
  "group_rows groups g = filter (\<lambda>n. groups ! n = g) [0..<length groups]"

text \<open>
  A sum over the rows \<open>gg\<close> and all columns of a view that leaves out the masked
  entries. This is \<open>.sum()\<close> on the masked array \<open>Y[m][gg,:]\<close>; it is also the plain
  sum when the data holds zeros at the masked positions, since \<open>Ypred_mk\<close> is set to
  zero there.
\<close>

definition masked_sum :: "(nat \<Rightarrow> nat \<Rightarrow> real) \<Rightarrow> bool list list \<Rightarrow> nat list \<Rightarrow> real" where
  "masked_sum f msk rows =
    (\<Sum>n\<leftarrow>rows. \<Sum>d\<leftarrow>[0..<length (msk ! n)]. if msk ! n ! d then 0 else f n d)"

text \<open>The value written to \<open>r2[g][m,k]\<close>, from \<open>SS\<close> and \<open>Res_k\<close>.\<close>

definition r2_entry :: "matrix \<Rightarrow> matrix \<Rightarrow> matrix \<times> bool list list \<Rightarrow> nat list \<Rightarrow> nat \<Rightarrow> nat \<Rightarrow> real option" where
  "r2_entry Z Wm Ym groups g k =
    (let gg = group_rows groups g;
         SS = masked_sum (\<lambda>n d. (fst Ym ! n ! d)\<^sup>2) (snd Ym) gg;
         Res_k = masked_sum (\<lambda>n d. (fst Ym ! n ! d - Z ! n ! k * Wm ! d ! k)\<^sup>2) (snd Ym) gg
     in if SS = 0 then None else Some (1 - Res_k / SS))"

text \<open>
  The function returns the list \<open>r2\<close> of references together with the store they
  point into. The three loops run in the order of the source: views, then groups, then
  factors.
\<close>

definition calculate_variance_explained :: "'w node_methods \<Rightarrow> 'w bayesnet \<Rightarrow> nat list \<times> heap" where
  "calculate_variance_explained nm bn =
    (let w = node_state bn;
         Z = Z_expectation nm w;
         W = W_expectation nm w;
         Y = Y_expectation nm w;
         groups = (if ''AlphaZ'' \<in> set (node_names nm) then AlphaZ_groups nm w
                   else replicate (dim_N bn) 0);
         K = nat (dim_K bn);
         r2 = replicate (dim_G bn) (0::nat);
         h0 = [replicate (dim_M bn) (replicate K (Some 0))];
         h = fold (\<lambda>m h.
               fold (\<lambda>g h.
                 fold (\<lambda>k h. heap_write h (r2 ! g) m k (r2_entry Z (W ! m) (Y ! m) groups g k))
                   [0..<K] h)
                 [0..<dim_G bn] h)
               [0..<dim_M bn] h0
     in (r2, h))"

section \<open>Factor pruning (\<open>BayesNet.removeInactiveFactors\<close>)\<close>

text \<open>
  \<open>s.where( (r2[g]>min_r2).sum(axis=0) == 0)[0]\<close>: the columns of the matrix behind
  \<open>r2[g]\<close> in which no entry exceeds \<open>min_r2\<close>.
\<close>

definition columns_not_above :: "fmatrix \<Rightarrow> nat \<Rightarrow> real \<Rightarrow> nat list" where
  "columns_not_above mat K min_r2 =
    filter (\<lambda>k. list_all (\<lambda>row. \<not> exceeds (row ! k) min_r2) mat) [0..<K]"

text \<open>
  The random choice takes a number \<open>rnd\<close> from outside and picks the candidate at
  position \<open>rnd mod length\<close>; every candidate is picked by some \<open>rnd\<close>. The
  candidates, a Python set turned into a list, are kept in increasing order.
  \<open>set.intersection\<close> with no argument (no group) is a type error, and
  \<open>s.concatenate\<close> of no array (no \<open>min_r2\<close>) is a value error. \<open>removeFactors\<close>
  is called on every node of the registry, in dict order, with the same \<open>drop\<close>.
\<close>

definition removeInactiveFactors ::
    "'w node_methods \<Rightarrow> nat \<Rightarrow> real option \<Rightarrow> 'w bayesnet \<Rightarrow> error + 'w bayesnet" where
  "removeInactiveFactors nm rnd min_r2 bn =
    (case min_r2 of
       None \<Rightarrow> Inl ValueError
     | Some t \<Rightarrow>
        (let (r2, h) = calculate_variance_explained nm bn;
             K = nat (dim_K bn);
             tmp = map (\<lambda>g. columns_not_above (h ! (r2 ! g)) K t) [0..<dim_G bn]
         in if tmp = [] then Inl TypeError
            else
              let cands = filter (\<lambda>k. list_all (\<lambda>c. k \<in> set c) tmp) [0..<K];
                  dropped = (if length cands > 0 then [cands ! (rnd mod length cands)] else cands);
                  w' = (if length dropped > 0
                        then fold (\<lambda>node. node_removeFactors nm node dropped) (node_names nm)
                               (node_state bn)
                        else node_state bn);
                  K' = dim_K bn - int (length dropped)
              in if K' = 0 then Inl SystemExit
                 else Inr (bn\<lparr>dim_K := K', node_state := w'\<rparr>)))"

section \<open>A small network for concrete runs\<close>

text \<open>
  Two samples, one per group; one view with one feature, fully observed; two factors.
  The joint state of the nodes is the pair of the expectations of \<open>Z\<close> and \<open>W\<close>;
  \<open>removeFactors\<close> removes the named columns from them, and the other methods leave
  the state alone. With \<open>Y = [[1],[1]]\<close>, \<open>Z = [[1,1],[0,1]]\<close> and \<open>W = [[1,1]]\<close>,
  factor 0 explains all of the variance of group 0 and none of group 1, and factor 1
  explains all of the variance of both groups.
\<close>

definition remove_columns :: "nat list \<Rightarrow> matrix \<Rightarrow> matrix" where
  "remove_columns dropped mat =
    map (\<lambda>row. map (\<lambda>k. row ! k) (filter (\<lambda>k. k \<notin> set dropped) [0..<length row])) mat"

definition example_methods :: "(matrix \<times> matrix list) node_methods" where
  "example_methods =
    \<lparr> node_names = [''Y'', ''Z'', ''W'', ''Tau'', ''AlphaZ''],
      is_variational = (\<lambda>n. n \<noteq> ''Y''),
      node_calculateELBO = (\<lambda>n w. if n = ''Z'' then - 3 else if n = ''W'' then - 2 else 1 / 2),
      node_update = (\<lambda>n a w. w),
      node_removeFactors = (\<lambda>n dropped w.
         if n = ''Z'' then (remove_columns dropped (fst w), snd w)
         else if n = ''W'' then (fst w, map (remove_columns dropped) (snd w))
         else w),
      node_precompute = (\<lambda>n w. w),
      node_define_mini_batch = (\<lambda>n ix w. w),
      set_TauTrick = (\<lambda>b w. w),
      Z_expectation = fst,
      W_expectation = snd,
      Y_expectation = (\<lambda>w. [([[1], [1]], [[False], [False]])]),
      AlphaZ_groups = (\<lambda>w. [0, 1]) \<rparr>"

definition example_net :: "(matrix \<times> matrix list) bayesnet" where
  "example_net =
    \<lparr> dim_N = 2, dim_M = 1, dim_K = 2, dim_G = 2,
      node_state = ([[1, 1], [0, 1]], [[[1, 1]]]),
      shuffled_ix = None \<rparr>"

text \<open>
  The record in the middle of the loop of \<open>calculateELBO\<close>: the nodes already
  visited carry their contributions, the nodes still to come carry 0, and the last
  entry is the running total.
\<close>

definition elbo_partial :: "(string \<Rightarrow> real) \<Rightarrow> string list \<Rightarrow> string list \<Rightarrow> series" where
  "elbo_partial f done rest =
     map (\<lambda>n. (n, f n)) done @ map (\<lambda>n. (n, 0)) rest @ [(''total'', sum_list (map f done))]"

section \<open>Double precision\<close>

text \<open>
  Python floats are IEEE doubles. Where the outcome depends on rounding (the bounds of
  the mini-batches and their number), the result of an operation is the exact result
  rounded to the nearest double, ties to even. A double has 53 significant bits, so in
  the binade \<open>2^e \<le> |x| < 2^(e+1)\<close> the doubles are the multiples of \<open>2^(e-52)\<close>.
  The exponent \<open>e\<close> is searched upwards from 0 or downwards from \<open>-1\<close> within the
  exponent range of doubles; the numbers below the normal range share the spacing of
  the least normal binade. Overflow to infinity is not modelled (no number here comes
  near it). An int below \<open>2^53\<close> converts to a float exactly.
\<close>

definition round_half_even :: "real \<Rightarrow> int" where
  "round_half_even x =
    (let f = \<lfloor>x\<rfloor>; r = x - real_of_int f
     in if r < 1 / 2 then f else if 1 / 2 < r then f + 1 else if even f then f else f + 1)"

fun binade_up :: "nat \<Rightarrow> real \<Rightarrow> int \<Rightarrow> int" where
  "binade_up 0 x e = e"
| "binade_up (Suc n) x e = (if x < 2 powi (e + 1) then e else binade_up n x (e + 1))"

fun binade_down :: "nat \<Rightarrow> real \<Rightarrow> int \<Rightarrow> int" where
  "binade_down 0 x e = e"
| "binade_down (Suc n) x e = (if 2 powi e \<le> x then e else binade_down n x (e - 1))"

definition binade :: "real \<Rightarrow> int" where
  "binade x = (if 1 \<le> \<bar>x\<bar> then binade_up 1023 \<bar>x\<bar> 0 else binade_down 1021 \<bar>x\<bar> (- 1))"

text \<open>The double nearest to \<open>x\<close>.\<close>

definition fl :: "real \<Rightarrow> real" where
  "fl x =
    (if x = 0 then 0
     else let q = 2 powi (binade x - 52) in real_of_int (round_half_even (x / q)) * q)"

section \<open>Mini-batches (\<open>StochasticBayesNet.sample_mini_batch_no_replace\<close>)\<close>

text \<open>Python's \<open>int(x)\<close> on a float truncates towards zero.\<close>

definition py_int :: "real \<Rightarrow> int" where
  "py_int x = (if 0 \<le> x then \<lfloor>x\<rfloor> else \<lceil>x\<rceil>)"

text \<open>
  The slice \<open>xs[a:b]\<close>: a negative bound counts from the end, and both bounds are
  clipped to the length, so a slice never raises.
\<close>

definition py_slice :: "'a list \<Rightarrow> int \<Rightarrow> int \<Rightarrow> 'a list" where
  "py_slice xs a b =
    (let n = int (length xs);
         a' = (if a < 0 then max (a + n) 0 else min a n);
         b' = (if b < 0 then max (b + n) 0 else min b n)
     in take (nat (b' - a')) (drop (nat a') xs))"

text \<open>
  \<open>define_mini_batch\<close>: the hook is called on \<open>Y\<close> and \<open>Tau\<close> (a missing one is a
  \<open>KeyError\<close>), and on \<open>AlphaZ\<close> and \<open>ThetaZ\<close> when the registry has them.
\<close>

definition define_mini_batch :: "'w node_methods \<Rightarrow> nat list \<Rightarrow> 'w \<Rightarrow> error + 'w" where
  "define_mini_batch nm ix w =
    (if ''Y'' \<notin> set (node_names nm) then Inl (KeyError ''Y'')
     else let w1 = node_define_mini_batch nm ''Y'' ix w in
       if ''Tau'' \<notin> set (node_names nm) then Inl (KeyError ''Tau'')
       else let w2 = node_define_mini_batch nm ''Tau'' ix w1;
                w3 = (if ''AlphaZ'' \<in> set (node_names nm)
                      then node_define_mini_batch nm ''AlphaZ'' ix w2 else w2);
                w4 = (if ''ThetaZ'' \<in> set (node_names nm)
                      then node_define_mini_batch nm ''ThetaZ'' ix w3 else w3)
            in Inr w4)"

text \<open>
  The permutation \<open>s.random.choice(range(N), size=N, replace=False)\<close> comes from
  outside as \<open>perm\<close>; it is used only when a new epoch starts. \<open>1./batch_size\<close> with
  a zero batch size and \<open>i % n_batches\<close> with no batch raise. The result is the pair
  \<open>(ix, epoch)\<close> and the object, with \<open>shuffled_ix\<close> and the nodes updated.
  The float arithmetic is that of doubles: the option holds the double nearest to the
  number configured, and the quotient \<open>1./batch_size\<close>, the product
  \<open>batch_size * N\<close>, the products \<open>S * batch_ix\<close> and \<open>S * (batch_ix + 1)\<close> and the
  quotient \<open>i / n_batches\<close> are each rounded.
\<close>

definition sample_mini_batch_no_replace ::
    "'w node_methods \<Rightarrow> train_options \<Rightarrow> nat list \<Rightarrow> int \<Rightarrow> 'w bayesnet
      \<Rightarrow> error + ((nat list \<times> int) \<times> 'w bayesnet)" where
  "sample_mini_batch_no_replace nm opts perm i0 bn =
    (let i = i0 - 1; bs = fl (batch_size opts) in
     if bs = 0 then Inl ZeroDivisionError
     else
       let n_batches = \<lceil>fl (1 / bs)\<rceil>;
           S = fl (bs * real (dim_N bn))
       in if n_batches = 0 then Inl ZeroDivisionError
          else
            let batch_ix = i mod n_batches;
                epoch = py_int (fl (real_of_int i / real_of_int n_batches));
                bn1 = (if batch_ix = 0 then bn\<lparr>shuffled_ix := Some perm\<rparr> else bn);
                lo = py_int (fl (S * real_of_int batch_ix));
                hi0 = py_int (fl (S * real_of_int (batch_ix + 1)));
                hi = (if hi0 > int (dim_N bn) then int (dim_N bn) else hi0)
            in (case shuffled_ix bn1 of
                  None \<Rightarrow> Inl AttributeError
                | Some sh \<Rightarrow>
                    let ix = py_slice sh lo hi in
                    (case define_mini_batch nm ix (node_state bn1) of
                       Inl e \<Rightarrow> Inl e
                     | Inr w \<Rightarrow> Inr ((ix, epoch), bn1\<lparr>node_state := w\<rparr>))))"

text \<open>
  The calls of consecutive iterations: call \<open>i\<close>, then \<open>i + 1\<close>, and so on, \<open>c\<close> of
  them, each on the object the previous one left; \<open>perms j\<close> is the permutation that
  call \<open>j\<close> would draw. The result lists the pairs \<open>(ix, epoch)\<close> in call order.
\<close>

fun sample_calls ::
    "'w node_methods \<Rightarrow> train_options \<Rightarrow> (int \<Rightarrow> nat list) \<Rightarrow> int \<Rightarrow> nat \<Rightarrow> 'w bayesnet
      \<Rightarrow> error + ((nat list \<times> int) list \<times> 'w bayesnet)" where
  "sample_calls nm opts perms i 0 bn = Inr ([], bn)"
| "sample_calls nm opts perms i (Suc c) bn =
    (case sample_mini_batch_no_replace nm opts (perms i) i bn of
       Inl e \<Rightarrow> Inl e
     | Inr (r, bn1) \<Rightarrow>
         (case sample_calls nm opts perms (i + 1) c bn1 of
            Inl e \<Rightarrow> Inl e
          | Inr (rs, bn2) \<Rightarrow> Inr (r # rs, bn2)))"

section \<open>Step size (\<open>StochasticBayesNet.step_size2\<close>)\<close>

text \<open>
  \<open>learning_rate / ((1 + forgetting_rate * i)**(3./4.))\<close> on Python floats. A
  positive base gives the real power. A zero base gives \<open>0.0\<close> and the division
  raises. A negative base does not raise: the power is the complex number
  \<open>|base|^(3/4) * (cos(3\<pi>/4) + i sin(3\<pi>/4))\<close>, and the method returns the complex
  quotient. The arithmetic of this function is that of the reals (and of the complex
  numbers), the rounding of the power and of the quotient being left out.
\<close>

definition negative_base_power :: "real \<Rightarrow> complex" where
  "negative_base_power base = complex_of_real (\<bar>base\<bar> powr (3 / 4)) * cis (3 * pi / 4)"

declare negative_base_power_def [code del]

definition step_size2 :: "train_options \<Rightarrow> int \<Rightarrow> error + py_number" where
  "step_size2 opts i =
    (let base = 1 + forgetting_rate opts * real_of_int i in
     if base = 0 then Inl ZeroDivisionError
     else if base < 0
       then Inr (PyComplex (complex_of_real (learning_rate opts) / negative_base_power base))
     else Inr (PyFloat (learning_rate opts / (base powr (3 / 4)))))"

text \<open>
  Options for concrete runs: mini-batches of three tenths of the samples, learning
  rate 1 and forgetting rate one half, convergence mode \<open>medium\<close>, an ELBO checkpoint
  at every iteration from the first on, and the stochastic phase from iteration 1.
\<close>

definition example_options :: train_options where
  "example_options =
    \<lparr> maxiter = 50, start_drop = 1, freq_drop = 1, convergence_mode = ''medium'',
      forceiter = False, schedule = [''Z'', ''W'', ''Tau''], start_sparsity = 1,
      start_elbo = 1, elbofreq = 1, drop_min_r2 = None, Y_ELBO_TauTrick = False,
      batch_size = 0.3, learning_rate = 1, forgetting_rate = 0.5, start_stochastic = 1 \<rparr>"

section \<open>The training loops (\<open>BayesNet.iterate\<close>, \<open>StochasticBayesNet.iterate\<close>)\<close>

text \<open>
  The variables of a loop: the ELBO table (a row that was never written holds
  \<open>nan\<close> everywhere and is \<open>None\<close> here), the factor counts, the convergence counter
  and the flag. Wall-clock times and printing are left out.
\<close>

record loop_vars =
  elbo_table :: "series option list"
  number_factors :: "int option list"
  convergence_token :: int
  converged :: bool

text \<open>
  Positional access as pandas' \<open>iloc\<close> and numpy indexing do it: a negative
  position counts from the end, and a position outside the table is an index error.
\<close>

definition iloc_set :: "'a option list \<Rightarrow> int \<Rightarrow> 'a \<Rightarrow> error + 'a option list" where
  "iloc_set tab i v =
    (let n = int (length tab); j = (if i < 0 then i + n else i)
     in if 0 \<le> j \<and> j < n then Inr (tab[nat j := Some v]) else Inl IndexError)"

text \<open>\<open>elbo.iloc[i]["total"]\<close>; the result \<open>None\<close> is \<open>nan\<close>.\<close>

definition iloc_total :: "series option list \<Rightarrow> int \<Rightarrow> error + real option" where
  "iloc_total tab i =
    (let n = int (length tab); j = (if i < 0 then i + n else i)
     in if 0 \<le> j \<and> j < n
        then (case tab ! nat j of
                None \<Rightarrow> Inr None
              | Some row \<Rightarrow> (case series_get row ''total'' of Inl e \<Rightarrow> Inl e | Inr v \<Rightarrow> Inr (Some v)))
        else Inl IndexError)"

text \<open>
  \<open>BayesNet.precompute\<close>: every node precomputes, in dict order; the ELBO of
  iteration 0 is computed with the \<open>TauTrick\<close> of the observation nodes switched off,
  and the configured value is set afterwards.
\<close>

definition precompute :: "'w node_methods \<Rightarrow> train_options \<Rightarrow> 'w bayesnet \<Rightarrow> error + (series \<times> 'w bayesnet)" where
  "precompute nm opts bn =
    (let w1 = fold (\<lambda>n. node_precompute nm n) (node_names nm) (node_state bn) in
     if ''Y'' \<notin> set (node_names nm) then Inl (KeyError ''Y'')
     else
       let w2 = set_TauTrick nm False w1 in
       (case calculateELBO nm w2 [] of
          Inl e \<Rightarrow> Inl e
        | Inr elbo \<Rightarrow> Inr (elbo, bn\<lparr>node_state := set_TauTrick nm (Y_ELBO_TauTrick opts) w2\<rparr>)))"

text \<open>
  Removal of inactive factors inside a loop. The test \<open>i % freq_drop\<close> is evaluated
  only when \<open>i >= start_drop\<close>, and raises for a zero \<open>freq_drop\<close>.
\<close>

definition prune_step ::
    "'w node_methods \<Rightarrow> train_options \<Rightarrow> nat \<Rightarrow> int \<Rightarrow> 'w bayesnet \<Rightarrow> loop_vars
      \<Rightarrow> error + ('w bayesnet \<times> loop_vars)" where
  "prune_step nm opts rnd i bn lv =
    (if i \<ge> start_drop opts then
       (if freq_drop opts = 0 then Inl ZeroDivisionError
        else if i mod freq_drop opts = 0 then
          (case (if drop_min_r2 opts \<noteq> None
                 then removeInactiveFactors nm rnd (drop_min_r2 opts) bn else Inr bn) of
             Inl e \<Rightarrow> Inl e
           | Inr bn1 \<Rightarrow>
               (case iloc_set (number_factors lv) i (dim_K bn1) of
                  Inl e \<Rightarrow> Inl e
                | Inr nf \<Rightarrow> Inr (bn1, lv\<lparr>number_factors := nf\<rparr>)))
        else Inr (bn, lv))
     else Inr (bn, lv))"

text \<open>
  The update pass over the schedule: \<open>ThetaW\<close> and \<open>ThetaZ\<close> are skipped before
  \<open>start_sparsity\<close>; a scheduled name that is not in the registry is a \<open>KeyError\<close>.
  Every call of the pass gets the same arguments.
\<close>

fun update_pass ::
    "'w node_methods \<Rightarrow> train_options \<Rightarrow> int \<Rightarrow> update_args \<Rightarrow> string list \<Rightarrow> 'w \<Rightarrow> error + 'w" where
  "update_pass nm opts i args [] w = Inr w"
| "update_pass nm opts i args (node # rest) w =
    (if (node = ''ThetaW'' \<or> node = ''ThetaZ'') \<and> i < start_sparsity opts
     then update_pass nm opts i args rest w
     else if node \<notin> set (node_names nm) then Inl (KeyError node)
     else update_pass nm opts i args rest (node_update nm node args w))"

text \<open>
  The comparison of \<open>assess_convergence\<close> on table entries that may be \<open>nan\<close>: with
  a \<open>nan\<close> on either side the comparison is false and the counter is reset.
\<close>

definition assess_convergence_nan ::
    "string \<Rightarrow> real option \<Rightarrow> real option \<Rightarrow> int \<Rightarrow> error + (int \<times> bool)" where
  "assess_convergence_nan mode delta_elbo first_elbo token =
    (case (delta_elbo, first_elbo) of
       (Some d, Some f) \<Rightarrow> assess_convergence mode d f token
     | _ \<Rightarrow> (case convergence_threshold mode of Inl e \<Rightarrow> Inl e | Inr thr \<Rightarrow> Inr (1, False)))"

definition float_minus :: "real option \<Rightarrow> real option \<Rightarrow> real option" where
  "float_minus a b = (case (a, b) of (Some x, Some y) \<Rightarrow> Some (x - y) | _ \<Rightarrow> None)"

text \<open>
  The ELBO checkpoint of an iteration, the same text in both loops. The second
  component of the result says whether the loop is left (\<open>break\<close>); on convergence
  the tables are cut to their first \<open>i\<close> rows first.
\<close>

definition elbo_checkpoint ::
    "'w node_methods \<Rightarrow> train_options \<Rightarrow> int \<Rightarrow> 'w bayesnet \<Rightarrow> loop_vars \<Rightarrow> error + (loop_vars \<times> bool)" where
  "elbo_checkpoint nm opts i bn lv =
    (if i \<ge> start_elbo opts then
       (if elbofreq opts = 0 then Inl ZeroDivisionError
        else if (i - start_elbo opts) mod elbofreq opts = 0 then
          (case calculateELBO nm (node_state bn) [] of
             Inl e \<Rightarrow> Inl e
           | Inr row \<Rightarrow>
          (case iloc_set (elbo_table lv) i row of
             Inl e \<Rightarrow> Inl e
           | Inr tab \<Rightarrow>
          (case iloc_total tab i of
             Inl e \<Rightarrow> Inl e
           | Inr total_i \<Rightarrow>
          (case iloc_total tab (if i = start_elbo opts then 0 else i - elbofreq opts) of
             Inl e \<Rightarrow> Inl e
           | Inr total_prev \<Rightarrow>
          (let delta_elbo = float_minus total_i total_prev;
               lv1 = lv\<lparr>elbo_table := tab\<rparr>
           in if i > start_elbo opts \<and> \<not> forceiter opts then
                (case iloc_total tab 0 of
                   Inl e \<Rightarrow> Inl e
                 | Inr first_elbo \<Rightarrow>
                (case assess_convergence_nan (convergence_mode opts) delta_elbo first_elbo
                        (convergence_token lv1) of
                   Inl e \<Rightarrow> Inl e
                 | Inr (token, conv) \<Rightarrow>
                     if conv
                     then Inr (lv1\<lparr>convergence_token := token, converged := True,
                                  number_factors := py_slice (number_factors lv1) 0 i,
                                  elbo_table := py_slice tab 0 i\<rparr>, True)
                     else Inr (lv1\<lparr>convergence_token := token, converged := conv\<rparr>, False)))
              else Inr (lv1, False))))))
        else Inr (lv, False))
     else Inr (lv, False))"

text \<open>One iteration of \<open>BayesNet.iterate\<close>: pruning, the update pass, the checkpoint.\<close>

definition iterate_body ::
    "'w node_methods \<Rightarrow> train_options \<Rightarrow> nat \<Rightarrow> int \<Rightarrow> 'w bayesnet \<Rightarrow> loop_vars
      \<Rightarrow> error + ('w bayesnet \<times> loop_vars \<times> bool)" where
  "iterate_body nm opts rnd i bn lv =
    (case prune_step nm opts rnd i bn lv of
       Inl e \<Rightarrow> Inl e
     | Inr (bn1, lv1) \<Rightarrow>
    (case update_pass nm opts i NoArgs (schedule opts) (node_state bn1) of
       Inl e \<Rightarrow> Inl e
     | Inr w \<Rightarrow>
    (let bn2 = bn1\<lparr>node_state := w\<rparr> in
     case elbo_checkpoint nm opts i bn2 lv1 of
       Inl e \<Rightarrow> Inl e
     | Inr (lv2, brk) \<Rightarrow> Inr (bn2, lv2, brk))))"

text \<open>
  \<open>for i in range(1, maxiter)\<close>, from \<open>i\<close> on; \<open>rnds i\<close> is the random number
  available to the pruning of iteration \<open>i\<close>.
\<close>

function iterate_loop ::
    "'w node_methods \<Rightarrow> train_options \<Rightarrow> (int \<Rightarrow> nat) \<Rightarrow> int \<Rightarrow> 'w bayesnet \<Rightarrow> loop_vars
      \<Rightarrow> error + ('w bayesnet \<times> loop_vars)" where
  "iterate_loop nm opts rnds i bn lv =
    (if i < maxiter opts then
       (case iterate_body nm opts (rnds i) i bn lv of
          Inl e \<Rightarrow> Inl e
        | Inr (bn1, lv1, brk) \<Rightarrow>
            if brk then Inr (bn1, lv1) else iterate_loop nm opts rnds (i + 1) bn1 lv1)
     else Inr (bn, lv))"
  by pat_completeness auto
termination
  by (relation "measure (\<lambda>(nm, opts, rnds, i, bn, lv). nat (maxiter opts - i))") auto

declare iterate_loop.simps [simp del]

text \<open>
  The start of both loops: the two tables of \<open>maxiter + 1\<close> rows of \<open>nan\<close> (a
  negative size is a value error), the counter at 1, the ELBO of iteration 0 from
  \<open>precompute\<close> and the factor count in row 0.
\<close>

definition iterate_init ::
    "'w node_methods \<Rightarrow> train_options \<Rightarrow> 'w bayesnet \<Rightarrow> error + ('w bayesnet \<times> loop_vars)" where
  "iterate_init nm opts bn =
    (if maxiter opts + 1 < 0 then Inl ValueError
     else
       let n = nat (maxiter opts + 1) in
       (case precompute nm opts bn of
          Inl e \<Rightarrow> Inl e
        | Inr (elbo0, bn1) \<Rightarrow>
       (case iloc_set (replicate n None) 0 elbo0 of
          Inl e \<Rightarrow> Inl e
        | Inr tab \<Rightarrow>
       (case iloc_set (replicate n None) 0 (dim_K bn1) of
          Inl e \<Rightarrow> Inl e
        | Inr nf \<Rightarrow>
            Inr (bn1, \<lparr>elbo_table = tab, number_factors = nf,
                       convergence_token = 1, converged = False\<rparr>)))))"

definition iterate ::
    "'w node_methods \<Rightarrow> train_options \<Rightarrow> (int \<Rightarrow> nat) \<Rightarrow> 'w bayesnet
      \<Rightarrow> error + ('w bayesnet \<times> loop_vars)" where
  "iterate nm opts rnds bn =
    (case iterate_init nm opts bn of
       Inl e \<Rightarrow> Inl e
     | Inr (bn1, lv) \<Rightarrow> iterate_loop nm opts rnds 1 bn1 lv)"

text \<open>
  The first step of an iteration of \<open>StochasticBayesNet.iterate\<close>: from
  \<open>start_stochastic\<close> on, a mini-batch is sampled and the step size is that of its
  epoch; before, the step size is 1 and \<open>ix\<close> keeps its value (\<open>None\<close> at the start).
  The rest of the iteration is that of the plain loop, with \<open>update(ix, ro)\<close> in the
  pass; the one print that matters, \<open>"Step size (rho): %.3f" % ro\<close> after the
  checkpoint, is a type error for a complex step size, and is not reached when the
  loop is left at the checkpoint.
\<close>

definition stochastic_setup ::
    "'w node_methods \<Rightarrow> train_options \<Rightarrow> (int \<Rightarrow> nat list) \<Rightarrow> int \<Rightarrow> nat list option \<Rightarrow> 'w bayesnet
      \<Rightarrow> error + (nat list option \<times> py_number \<times> 'w bayesnet)" where
  "stochastic_setup nm opts perms i ix bn =
    (if i \<ge> start_stochastic opts then
       (let j = i - (start_stochastic opts - 1) in
        case sample_mini_batch_no_replace nm opts (perms j) j bn of
          Inl e \<Rightarrow> Inl e
        | Inr ((ix1, epoch), bn1) \<Rightarrow>
            (case step_size2 opts epoch of
               Inl e \<Rightarrow> Inl e
             | Inr ro \<Rightarrow> Inr (Some ix1, ro, bn1)))
     else Inr (ix, PyFloat 1, bn))"

definition stochastic_body ::
    "'w node_methods \<Rightarrow> train_options \<Rightarrow> (int \<Rightarrow> nat list) \<Rightarrow> nat \<Rightarrow> int \<Rightarrow> nat list option
      \<Rightarrow> 'w bayesnet \<Rightarrow> loop_vars \<Rightarrow> error + (nat list option \<times> 'w bayesnet \<times> loop_vars \<times> bool)" where
  "stochastic_body nm opts perms rnd i ix bn lv =
    (case stochastic_setup nm opts perms i ix bn of
       Inl e \<Rightarrow> Inl e
     | Inr (ix1, ro, bn0) \<Rightarrow>
    (case prune_step nm opts rnd i bn0 lv of
       Inl e \<Rightarrow> Inl e
     | Inr (bn1, lv1) \<Rightarrow>
    (case update_pass nm opts i (MiniBatch ix1 ro) (schedule opts) (node_state bn1) of
       Inl e \<Rightarrow> Inl e
     | Inr w \<Rightarrow>
    (let bn2 = bn1\<lparr>node_state := w\<rparr> in
     case elbo_checkpoint nm opts i bn2 lv1 of
       Inl e \<Rightarrow> Inl e
     | Inr (lv2, brk) \<Rightarrow>
         if brk then Inr (ix1, bn2, lv2, True)
         else (case ro of
                 PyComplex z \<Rightarrow> Inl TypeError
               | PyFloat r \<Rightarrow> Inr (ix1, bn2, lv2, False))))))"

function stochastic_loop ::
    "'w node_methods \<Rightarrow> train_options \<Rightarrow> (int \<Rightarrow> nat list) \<Rightarrow> (int \<Rightarrow> nat) \<Rightarrow> int \<Rightarrow> nat list option
      \<Rightarrow> 'w bayesnet \<Rightarrow> loop_vars \<Rightarrow> error + ('w bayesnet \<times> loop_vars)" where
  "stochastic_loop nm opts perms rnds i ix bn lv =
    (if i < maxiter opts then
       (case stochastic_body nm opts perms (rnds i) i ix bn lv of
          Inl e \<Rightarrow> Inl e
        | Inr (ix1, bn1, lv1, brk) \<Rightarrow>
            if brk then Inr (bn1, lv1) else stochastic_loop nm opts perms rnds (i + 1) ix1 bn1 lv1)
     else Inr (bn, lv))"
  by pat_completeness auto
termination
  by (relation "measure (\<lambda>(nm, opts, perms, rnds, i, ix, bn, lv). nat (maxiter opts - i))") auto

declare stochastic_loop.simps [simp del]

definition stochastic_iterate ::
    "'w node_methods \<Rightarrow> train_options \<Rightarrow> (int \<Rightarrow> nat list) \<Rightarrow> (int \<Rightarrow> nat) \<Rightarrow> 'w bayesnet
      \<Rightarrow> error + ('w bayesnet \<times> loop_vars)" where
  "stochastic_iterate nm opts perms rnds bn =
    (case iterate_init nm opts bn of
       Inl e \<Rightarrow> Inl e
     | Inr (bn1, lv) \<Rightarrow> stochastic_loop nm opts perms rnds 1 None bn1 lv)"

text \<open>
  The loop variables \<open>(i, ix, bn, lv)\<close> at the head of the stochastic loop after \<open>k\<close>
  further iterations have completed, starting from the head with the variables given;
  \<open>None\<close> when the loop has ended before that (the range is exhausted, an iteration
  raised, or the \<open>break\<close> was taken).
\<close>

fun loop_head ::
    "'w node_methods \<Rightarrow> train_options \<Rightarrow> (int \<Rightarrow> nat list) \<Rightarrow> (int \<Rightarrow> nat) \<Rightarrow> nat \<Rightarrow> int
      \<Rightarrow> nat list option \<Rightarrow> 'w bayesnet \<Rightarrow> loop_vars
      \<Rightarrow> (int \<times> nat list option \<times> 'w bayesnet \<times> loop_vars) option" where
  "loop_head nm opts perms rnds 0 i ix bn lv = Some (i, ix, bn, lv)"
| "loop_head nm opts perms rnds (Suc k) i ix bn lv =
    (if i < maxiter opts then
       (case stochastic_body nm opts perms (rnds i) i ix bn lv of
          Inl e \<Rightarrow> None
        | Inr (ix1, bn1, lv1, brk) \<Rightarrow>
            if brk then None else loop_head nm opts perms rnds k (i + 1) ix1 bn1 lv1)
     else None)"

text \<open>
  The ELBO record of the small network (its nodes return constants), loop variables
  with a two-row table after iteration 0, and the loop variables at the end of a run
  that converged at iteration 5.
\<close>

definition example_row :: series where
  "example_row = [(''Z'', - 3), (''W'', - 2), (''Tau'', 1 / 2), (''AlphaZ'', 1 / 2), (''total'', - 4)]"

definition example_vars :: loop_vars where
  "example_vars =
    \<lparr> elbo_table = [Some example_row, None], number_factors = [Some 2, None],
      convergence_token = 1, converged = False \<rparr>"

definition example_final :: loop_vars where
  "example_final =
    \<lparr> elbo_table = replicate 5 (Some example_row), number_factors = replicate 5 (Some 2),
      convergence_token = 5, converged = True \<rparr>"

text \<open>
  A loop that was left at iteration \<open>j\<close> because convergence was declared there: the
  iteration is a checkpoint after \<open>start_elbo\<close>, iterations are not forced, the counter
  is 5 and the ELBO table was cut to \<open>j\<close> rows.
\<close>

definition declared_at :: "train_options \<Rightarrow> int \<Rightarrow> loop_vars \<Rightarrow> bool" where
  "declared_at opts j lv =
    (j < maxiter opts \<and> start_elbo opts < j \<and> \<not> forceiter opts \<and> elbofreq opts \<noteq> 0
     \<and> (j - start_elbo opts) mod elbofreq opts = 0
     \<and> length (elbo_table lv) = nat j \<and> convergence_token lv = 5)"

text \<open>The nodes of the schedule that iteration \<open>i\<close> updates, in order.\<close>

definition scheduled :: "train_options \<Rightarrow> int \<Rightarrow> string list" where
  "scheduled opts i =
    filter (\<lambda>n. \<not> ((n = ''ThetaW'' \<or> n = ''ThetaZ'') \<and> i < start_sparsity opts)) (schedule opts)"

section \<open>The noise precision node (\<open>TauD_Node\<close>)\<close>

text \<open>
  Arrays are index functions, with their shape kept beside them: \<open>N\<close> samples,
  \<open>D\<close> features, \<open>K\<close> factors. The numpy operations the node uses are written on
  them: the matrix product over the \<open>K\<close> inner indices, the transpose, the
  elementwise square and product, the assignment \<open>A[mask] = v\<close>, and the sum over
  the \<open>N\<close> rows (\<open>sum(axis=0)\<close>). Floats are reals.
\<close>

type_synonym arr1 = "nat \<Rightarrow> real"
type_synonym arr2 = "nat \<Rightarrow> nat \<Rightarrow> real"
type_synonym barr2 = "nat \<Rightarrow> nat \<Rightarrow> bool"

definition np_dot :: "nat \<Rightarrow> arr2 \<Rightarrow> arr2 \<Rightarrow> arr2" where
  "np_dot K A B = (\<lambda>n d. \<Sum>k\<leftarrow>[0..<K]. A n k * B k d)"

definition np_T :: "arr2 \<Rightarrow> arr2" where
  "np_T A = (\<lambda>i j. A j i)"

definition np_square :: "arr2 \<Rightarrow> arr2" where
  "np_square A = (\<lambda>n d. (A n d)\<^sup>2)"

definition np_mul :: "arr2 \<Rightarrow> arr2 \<Rightarrow> arr2" where
  "np_mul A B = (\<lambda>n d. A n d * B n d)"

definition mask_assign :: "arr2 \<Rightarrow> barr2 \<Rightarrow> real \<Rightarrow> arr2" where
  "mask_assign A msk v = (\<lambda>n d. if msk n d then v else A n d)"

definition sum_axis0 :: "nat \<Rightarrow> arr2 \<Rightarrow> arr1" where
  "sum_axis0 N A = (\<lambda>d. \<Sum>n\<leftarrow>[0..<N]. A n d)"

definition count_axis0 :: "nat \<Rightarrow> barr2 \<Rightarrow> nat \<Rightarrow> nat" where
  "count_axis0 N msk = (\<lambda>d. length (filter (\<lambda>n. msk n d) [0..<N]))"

definition np_sum :: "nat \<Rightarrow> arr1 \<Rightarrow> real" where
  "np_sum D v = (\<Sum>d\<leftarrow>[0..<D]. v d)"

text \<open>
  The node: the parameters of its prior \<open>P\<close> and posterior \<open>Q\<close> (one shape \<open>a\<close> and
  one rate \<open>b\<close> per feature), the cached expectations of \<open>Q\<close>, and the attributes
  that \<open>precompute\<close> creates (absent before).
\<close>

record tau_node =
  P_a :: arr1
  P_b :: arr1
  Q_a :: arr1
  Q_b :: arr1
  Q_E :: arr1
  Q_lnE :: arr1
  tau_N :: "nat option"
  lbconst :: "real option"
  Qa_pre :: "arr1 option"

text \<open>
  The node and what it reaches through its Markov blanket. The data of the observation
  node is an array in a store of arrays, held by address, because the node under study
  writes into the array it is handed. The expectations of \<open>W\<close> (\<open>D \<times> K\<close>) and \<open>Z\<close>
  (\<open>N \<times> K\<close>) are only read. The mask is a full boolean array. \<open>gpu_mode\<close> is the
  module-level switch of \<open>gpu_utils\<close>.
\<close>

record tau_world =
  arrays :: "nat \<Rightarrow> arr2"
  Y_value :: nat
  Y_msk :: barr2
  W_E :: arr2
  W_E2 :: arr2
  Z_E :: arr2
  Z_E2 :: arr2
  shape_N :: nat
  shape_D :: nat
  shape_K :: nat
  tau :: tau_node
  gpu_mode :: bool

text \<open>
  Modelled from the spec: \<open>markov_blanket["Y"].getExpectation()\<close>, a method of the
  observation node, which is not among the sources. The specification lets a node read
  what its neighbours expose; as a Python getter that returns an attribute does, the
  method hands out the masked array the observation node holds: the address of its
  data and its mask.
\<close>

definition Y_getExpectation :: "tau_world \<Rightarrow> nat \<times> barr2" where
  "Y_getExpectation w = (Y_value w, Y_msk w)"

text \<open>
  \<open>TauD_Node.precompute\<close>; \<open>lgamma\<close> stands for \<open>scipy.special.gammaln\<close>, and
  \<open>s.log\<close> is the natural logarithm.
\<close>

definition TauD_precompute :: "(real \<Rightarrow> real) \<Rightarrow> bool \<Rightarrow> tau_world \<Rightarrow> tau_world" where
  "TauD_precompute lgamma options_gpu_mode w =
    (let Pa = P_a (tau w); Pb = P_b (tau w);
         c = np_sum (shape_D w) (\<lambda>d. Pa d * ln (Pb d) - lgamma (Pa d));
         (Y, msk) = Y_getExpectation w;
         qa = (\<lambda>d. Pa d + (real (shape_N w) - real (count_axis0 (shape_N w) msk d)) / 2)
     in w\<lparr>tau := (tau w)\<lparr>tau_N := Some (shape_N w), lbconst := Some c, Qa_pre := Some qa\<rparr>,
          gpu_mode := options_gpu_mode\<rparr>)"

text \<open>
  \<open>TauD_Node.updateParameters\<close>, statement by statement. \<open>Y = Y.data\<close> is the
  array behind the masked array, not a copy, so \<open>Y[mask] = 0.\<close> is a write to the
  store; the products and sums are new arrays. Reading \<open>self.Qa_pre\<close> before
  \<open>precompute\<close> is an attribute error.
\<close>

definition updateParameters :: "tau_world \<Rightarrow> error + tau_world" where
  "updateParameters w =
    (let (Y_addr, msk) = Y_getExpectation w;
         W = W_E w; WW = W_E2 w;
         Z = Z_E w; ZZ = Z_E2 w;
         Pa = P_a (tau w); Pb = P_b (tau w);
         N = shape_N w; K = shape_K w;
         arrays1 = (arrays w)(Y_addr := mask_assign (arrays w Y_addr) msk 0);
         Y = arrays1 Y_addr;
         ZW = mask_assign (np_dot K Z (np_T W)) msk 0;
         term1 = sum_axis0 N (np_square Y);
         term2 = sum_axis0 N (mask_assign (np_dot K ZZ (np_T WW)) msk 0);
         term3a = sum_axis0 N (mask_assign (np_dot K (np_square Z) (np_T (np_square W))) msk 0);
         term3 = (\<lambda>d. - term3a d + sum_axis0 N (np_square ZW) d);
         ZWY = np_mul ZW Y;
         term4 = (\<lambda>d. 2 * sum_axis0 N ZWY d);
         tmp = (\<lambda>d. term1 d + term2 d + term3 d - term4 d);
         Qb = (\<lambda>d. Pb d + tmp d / 2)
     in case Qa_pre (tau w) of
          None \<Rightarrow> Inl AttributeError
        | Some qa \<Rightarrow> Inr (w\<lparr>arrays := arrays1, tau := (tau w)\<lparr>Q_a := qa, Q_b := Qb\<rparr>\<rparr>))"


text \<open>\<open>TauD_Node.calculateELBO\<close>; \<open>self.lbconst\<close> exists after \<open>precompute\<close> only.\<close>

definition TauD_calculateELBO :: "(real \<Rightarrow> real) \<Rightarrow> tau_world \<Rightarrow> error + real" where
  "TauD_calculateELBO lgamma w =
    (let Pa = P_a (tau w); Pb = P_b (tau w); Qa = Q_a (tau w); Qb = Q_b (tau w);
         QE = Q_E (tau w); QlnE = Q_lnE (tau w);
         D = shape_D w
     in case lbconst (tau w) of
          None \<Rightarrow> Inl AttributeError
        | Some c \<Rightarrow>
            let lb_p = c + np_sum D (\<lambda>d. (Pa d - 1) * QlnE d) - np_sum D (\<lambda>d. Pb d * QE d);
                lb_q = np_sum D (\<lambda>d. Qa d * ln (Qb d)) + np_sum D (\<lambda>d. (Qa d - 1) * QlnE d)
                       - np_sum D (\<lambda>d. Qb d * QE d) - np_sum D (\<lambda>d. lgamma (Qa d))
            in Inr (lb_p - lb_q))"

text \<open>
  The four terms of the update as the specification words them, for feature \<open>d\<close>:
  sums over the samples in which a missing entry contributes 0.
\<close>

definition spec_term1 :: "tau_world \<Rightarrow> nat \<Rightarrow> real" where
  "spec_term1 w d =
    (\<Sum>n\<leftarrow>[0..<shape_N w]. if Y_msk w n d then 0 else (arrays w (Y_value w) n d)\<^sup>2)"

definition spec_term2 :: "tau_world \<Rightarrow> nat \<Rightarrow> real" where
  "spec_term2 w d =
    (\<Sum>n\<leftarrow>[0..<shape_N w]. if Y_msk w n d then 0
        else (\<Sum>k\<leftarrow>[0..<shape_K w]. Z_E2 w n k * W_E2 w d k))"

definition spec_term3 :: "tau_world \<Rightarrow> nat \<Rightarrow> real" where
  "spec_term3 w d =
    (\<Sum>n\<leftarrow>[0..<shape_N w]. if Y_msk w n d then 0
        else (\<Sum>k\<leftarrow>[0..<shape_K w]. Z_E w n k * W_E w d k)\<^sup>2
             - (\<Sum>k\<leftarrow>[0..<shape_K w]. (Z_E w n k)\<^sup>2 * (W_E w d k)\<^sup>2))"

definition spec_term4 :: "tau_world \<Rightarrow> nat \<Rightarrow> real" where
  "spec_term4 w d =
    2 * (\<Sum>n\<leftarrow>[0..<shape_N w]. if Y_msk w n d then 0
        else (\<Sum>k\<leftarrow>[0..<shape_K w]. Z_E w n k * W_E w d k) * arrays w (Y_value w) n d)"

text \<open>
  A world for concrete runs: one sample, one feature, one factor; the only observation
  is missing, and the array behind it holds 5 at that place.
\<close>

definition example_tau :: tau_world where
  "example_tau =
    \<lparr> arrays = (\<lambda>a n d. 5), Y_value = 0, Y_msk = (\<lambda>n d. n = 0 \<and> d = 0),
      W_E = (\<lambda>d k. 1), W_E2 = (\<lambda>d k. 2), Z_E = (\<lambda>n k. 1), Z_E2 = (\<lambda>n k. 2),
      shape_N = 1, shape_D = 1, shape_K = 1,
      tau = \<lparr> P_a = (\<lambda>d. 1), P_b = (\<lambda>d. 1), Q_a = (\<lambda>d. 1), Q_b = (\<lambda>d. 1),
              Q_E = (\<lambda>d. 1), Q_lnE = (\<lambda>d. 0),
              tau_N = Some 1, lbconst = Some 0, Qa_pre = Some (\<lambda>d. 1) \<rparr>,
      gpu_mode = False \<rparr>"

text \<open>
  A configuration whose batch size is one third, on seven samples: three batches to
  the epoch.
\<close>

definition third_options :: train_options where
  "third_options = example_options\<lparr>batch_size := 1 / 3\<rparr>"

definition seven_net :: "(matrix \<times> matrix list) bayesnet" where
  "seven_net = example_net\<lparr>dim_N := 7\<rparr>"

text \<open>
  A network that records what its nodes are asked to do: the joint state of the nodes
  is the list of the \<open>update\<close> calls made so far, each with the name of the node and
  the arguments it received. Every node reports the same ELBO at all times. Its
  options force all iterations: four of them, the first two before the stochastic
  phase, with two batches to the epoch over four samples.
\<close>

definition trace_methods :: "(string \<times> update_args) list node_methods" where
  "trace_methods =
    \<lparr> node_names = [''Y'', ''Z'', ''W'', ''Tau''],
      is_variational = (\<lambda>n. n \<noteq> ''Y''),
      node_calculateELBO = (\<lambda>n w. - 1),
      node_update = (\<lambda>n a w. w @ [(n, a)]),
      node_removeFactors = (\<lambda>n dropped w. w),
      node_precompute = (\<lambda>n w. w),
      node_define_mini_batch = (\<lambda>n ix w. w),
      set_TauTrick = (\<lambda>b w. w),
      Z_expectation = (\<lambda>w. []),
      W_expectation = (\<lambda>w. []),
      Y_expectation = (\<lambda>w. []),
      AlphaZ_groups = (\<lambda>w. []) \<rparr>"

definition trace_options :: train_options where
  "trace_options =
    \<lparr> maxiter = 5, start_drop = 1, freq_drop = 1, convergence_mode = ''medium'',
      forceiter = True, schedule = [''Z'', ''W''], start_sparsity = 1,
      start_elbo = 1, elbofreq = 1, drop_min_r2 = None, Y_ELBO_TauTrick = False,
      batch_size = 0.5, learning_rate = 1, forgetting_rate = 0.5, start_stochastic = 3 \<rparr>"

definition trace_net :: "(string \<times> update_args) list bayesnet" where
  "trace_net =
    \<lparr> dim_N = 4, dim_M = 1, dim_K = 1, dim_G = 1, node_state = [], shuffled_ix = None \<rparr>"

definition trace_row :: series where
  "trace_row = [(''Z'', - 1), (''W'', - 1), (''Tau'', - 1), (''total'', - 3)]"

text \<open>
  The calls the run of that network makes, in order, \<open>ro\<close> being the step size of the
  two stochastic iterations; the object and the loop variables at the head of the loop
  after \<open>k\<close> iterations (with \<open>k\<close> from 0 to 4).
\<close>

definition trace_calls :: "py_number \<Rightarrow> (string \<times> update_args) list" where
  "trace_calls ro =
    [(''Z'', MiniBatch None (PyFloat 1)), (''W'', MiniBatch None (PyFloat 1)),
     (''Z'', MiniBatch None (PyFloat 1)), (''W'', MiniBatch None (PyFloat 1)),
     (''Z'', MiniBatch (Some [2, 0]) ro), (''W'', MiniBatch (Some [2, 0]) ro),
     (''Z'', MiniBatch (Some [3, 1]) ro), (''W'', MiniBatch (Some [3, 1]) ro)]"

definition trace_state :: "py_number \<Rightarrow> nat \<Rightarrow> (string \<times> update_args) list bayesnet" where
  "trace_state ro k =
    trace_net\<lparr>node_state := take (2 * k) (trace_calls ro),
               shuffled_ix := (if k \<le> 2 then None else Some [2, 0, 3, 1])\<rparr>"

definition trace_vars :: "nat \<Rightarrow> loop_vars" where
  "trace_vars k =
    \<lparr> elbo_table = replicate (Suc k) (Some trace_row) @ replicate (5 - k) None,
      number_factors = replicate (Suc k) (Some 1) @ replicate (5 - k) None,
      convergence_token = 1, converged = False \<rparr>"

section \<open>Training options: what the code checks\<close>

lemma setTrainOptions_ok_iff:
  "(setTrainOptions opts = Inr opts) = (set asserted_keys \<subseteq> dom opts)"
  unfolding setTrainOptions_def asserted_keys_def by (simp del: not_None_eq)

lemma setTrainOptions_cases:
  "setTrainOptions opts = Inr opts \<or> (\<exists>m. setTrainOptions opts = Inl (AssertionError m))"
  unfolding setTrainOptions_def by (simp del: not_None_eq)

text \<open>
  Claim C9, as stated: setting the training options fails whenever any one key of the
  specification's list is missing. The dict \<open>opts_without_elbofreq\<close> misses
  \<open>elbofreq\<close>, a key of that list, and \<open>setTrainOptions\<close> accepts and stores it.
\<close>

theorem setTrainOptions_missing_elbofreq_accepted:
  "''elbofreq'' \<in> set spec_required_keys
   \<and> ''elbofreq'' \<notin> dom opts_without_elbofreq
   \<and> setTrainOptions opts_without_elbofreq = Inr opts_without_elbofreq"
  unfolding setTrainOptions_def opts_without_elbofreq_def spec_required_keys_def
  by (simp add: dom_def)

text \<open>
  Claim C9, amended: setting the training options fails, with an assertion error and
  nothing stored, exactly when one of the twelve keys \<open>maxiter\<close>, \<open>start_drop\<close>,
  \<open>freq_drop\<close>, \<open>verbose\<close>, \<open>quiet\<close>, \<open>tolerance\<close>, \<open>convergence_mode\<close>,
  \<open>forceiter\<close>, \<open>schedule\<close>, \<open>start_sparsity\<close>, \<open>gpu_mode\<close>, \<open>start_elbo\<close> is
  missing; otherwise the dict is stored as it is. The keys \<open>elbofreq\<close>, \<open>drop\<close>
  and \<open>stochastic\<close> are not looked at.
\<close>

theorem setTrainOptions_fails_iff:
  "((\<exists>m. setTrainOptions opts = Inl (AssertionError m)) = (\<exists>k \<in> set asserted_keys. k \<notin> dom opts))
   \<and> ((setTrainOptions opts = Inr opts) = (\<forall>k \<in> set asserted_keys. k \<in> dom opts))"
  using setTrainOptions_ok_iff [of opts] setTrainOptions_cases [of opts] by auto

theorem setTrainOptions_fails_iff_witness:
  "(\<exists>k \<in> set asserted_keys. k \<notin> dom (Map.empty :: string \<rightharpoonup> unit))
   \<and> (\<exists>m. setTrainOptions (Map.empty :: string \<rightharpoonup> unit) = Inl (AssertionError m))
   \<and> set asserted_keys \<subseteq> dom opts_without_elbofreq
   \<and> setTrainOptions opts_without_elbofreq = Inr opts_without_elbofreq"
proof -
  have a: "\<exists>k \<in> set asserted_keys. k \<notin> dom (Map.empty :: string \<rightharpoonup> unit)"
    by (auto simp: asserted_keys_def)
  have b: "\<forall>k \<in> set asserted_keys. k \<in> dom opts_without_elbofreq"
    by (simp add: asserted_keys_def opts_without_elbofreq_def spec_required_keys_def dom_def)
  show ?thesis
    using a b setTrainOptions_fails_iff [of "Map.empty :: string \<rightharpoonup> unit"]
      setTrainOptions_fails_iff [of opts_without_elbofreq]
    by blast
qed

section \<open>Convergence test: the counter\<close>

lemma convergence_threshold_Inr:
  "convergence_threshold mode = Inr thr \<Longrightarrow>
     mode \<in> {''fast'', ''medium'', ''slow''} \<and>
     thr = (if mode = ''fast'' then 0.00001 else if mode = ''medium'' then 0.000001 else 0.0000001)"
  by (auto simp: convergence_threshold_def split: if_splits)

lemma assess_convergence_step:
  "convergence_threshold mode = Inr thr \<Longrightarrow>
   assess_convergence mode d first t =
     Inr (if below_threshold d first thr then (t + 1, t + 1 = 5) else (1, False))"
  by (simp add: assess_convergence_def)

lemma assess_checks_all_below:
  "convergence_threshold mode = Inr thr \<Longrightarrow> \<forall>d \<in> set ds. below_threshold d first thr \<Longrightarrow>
   1 \<le> t \<Longrightarrow> t \<le> 4 \<Longrightarrow>
   assess_checks mode first t ds =
     Inr (if 5 - t \<le> int (length ds) then (5, Some (nat (5 - t))) else (t + int (length ds), None))"
proof (induction ds arbitrary: t)
  case Nil
  then show ?case by simp
next
  case (Cons d ds)
  show ?case
  proof (cases "t = 4")
    case True
    with Cons.prems show ?thesis by (simp add: assess_convergence_step)
  next
    case False
    with Cons.prems have t: "1 \<le> t + 1" "t + 1 \<le> 4" "t + 1 \<noteq> 5" by auto
    have ih: "assess_checks mode first (t + 1) ds =
      Inr (if 5 - (t + 1) \<le> int (length ds) then (5, Some (nat (5 - (t + 1))))
           else (t + 1 + int (length ds), None))"
      using Cons.IH [OF Cons.prems(1) _ t(1) t(2)] Cons.prems(2) by simp
    have n: "Suc (nat (4 - t)) = nat (5 - t)" using Cons.prems by simp
    show ?thesis
      using Cons.prems t ih n by (simp add: assess_convergence_step)
  qed
qed

lemma assess_checks_append:
  "assess_checks mode first t xs = Inr (t', None) \<Longrightarrow>
   assess_checks mode first t (xs @ ys) =
     (case assess_checks mode first t' ys of
        Inl e \<Rightarrow> Inl e
      | Inr (t'', r) \<Rightarrow> Inr (t'', map_option (\<lambda>n. n + length xs) r))"
proof (induction xs arbitrary: t)
  case Nil
  then show ?case by (auto split: sum.splits simp: option.map_ident)
next
  case (Cons d xs)
  then show ?case
    by (auto split: sum.splits if_splits prod.splits simp: option.map_comp comp_def)
qed

text \<open>
  Claim C2, amended: the test compares \<open>100 * |delta_elbo / first_elbo|\<close> with the
  threshold of the mode (fast \<open>1e-5\<close>, medium \<open>1e-6\<close>, slow \<open>1e-7\<close>); a counter
  that starts at 1 is incremented by a check below the threshold and set back to 1 by a
  check at or above it; convergence is declared when the counter reaches 5, which is
  on the fourth consecutive check below the threshold (not the fifth), counted from
  the start or from the last check at or above the threshold. One check at or above the
  threshold after fewer than four checks below it delays convergence to the fourth
  check after it.
\<close>

theorem assess_convergence_counter:
  assumes "convergence_threshold mode = Inr thr"
  shows "mode \<in> {''fast'', ''medium'', ''slow''}
    \<and> thr = (if mode = ''fast'' then 0.00001 else if mode = ''medium'' then 0.000001 else 0.0000001)
    \<and> assess_convergence mode d first t =
        Inr (if below_threshold d first thr then (t + 1, t + 1 = 5) else (1, False))
    \<and> ((\<forall>x \<in> set ds. below_threshold x first thr) \<longrightarrow>
        assess_checks mode first 1 ds =
          Inr (if 4 \<le> length ds then (5, Some 4) else (1 + int (length ds), None)))
    \<and> ((\<forall>x \<in> set pre. below_threshold x first thr) \<and> length pre < 4
        \<and> \<not> below_threshold a first thr \<and> (\<forall>x \<in> set post. below_threshold x first thr) \<longrightarrow>
        assess_checks mode first 1 (pre @ a # post) =
          Inr (if 4 \<le> length post then (5, Some (length pre + 5))
               else (1 + int (length post), None)))"
proof -
  have run: "assess_checks mode first 1 xs =
      Inr (if 4 \<le> length xs then (5, Some 4) else (1 + int (length xs), None))"
    if "\<forall>x \<in> set xs. below_threshold x first thr" for xs
  proof -
    have "(4 \<le> int (length xs)) = (4 \<le> length xs)" by linarith
    then show ?thesis
      using assess_checks_all_below [OF assms that, of 1] by simp
  qed
  have delayed: "assess_checks mode first 1 (pre @ a # post) =
      Inr (if 4 \<le> length post then (5, Some (length pre + 5))
           else (1 + int (length post), None))"
    if p: "\<forall>x \<in> set pre. below_threshold x first thr" "length pre < 4"
      "\<not> below_threshold a first thr" "\<forall>x \<in> set post. below_threshold x first thr"
  proof -
    have 1: "assess_checks mode first 1 pre = Inr (1 + int (length pre), None)"
      using run [OF p(1)] p(2) by simp
    have 2: "assess_checks mode first (1 + int (length pre)) (a # post) =
        Inr (if 4 \<le> length post then (5, Some 5) else (1 + int (length post), None))"
      using run [OF p(4)] p(3) assms by (simp add: assess_convergence_step)
    show ?thesis
      using assess_checks_append [OF 1, of "a # post"] 2 by (simp del: assess_checks.simps)
  qed
  show ?thesis
    using convergence_threshold_Inr [OF assms] assess_convergence_step [OF assms] run delayed
    by blast
qed

theorem assess_convergence_counter_witness:
  "convergence_threshold ''medium'' = Inr 0.000001
   \<and> assess_convergence ''medium'' 0 1 4 = Inr (5, True)
   \<and> assess_convergence ''medium'' 1 1 4 = Inr (1, False)
   \<and> assess_checks ''medium'' 1 1 [0, 0, 0, 0, 0] = Inr (5, Some 4)
   \<and> assess_checks ''medium'' 1 1 ([0, 0, 0] @ 1 # [0, 0, 0, 0]) = Inr (5, Some 8)"
proof -
  have t: "convergence_threshold ''medium'' = Inr 0.000001"
    by (simp add: convergence_threshold_def)
  have b: "below_threshold 0 1 0.000001" "\<not> below_threshold 1 1 0.000001"
    by (simp_all add: below_threshold_def)
  show ?thesis
    using t b assess_convergence_counter [OF t, of 0 1 4 "[0, 0, 0, 0, 0]" "[0, 0, 0]" 1 "[0, 0, 0, 0]"]
      assess_convergence_counter [OF t, of 1 1 4 "[]" "[]" 1 "[]"]
    by simp
qed

text \<open>
  Claim C2, as stated: convergence is declared exactly on the fifth consecutive check
  below the threshold. In mode \<open>medium\<close>, with first ELBO 1 and differences 0, the
  counter goes 1, 2, 3, 4, 5 over four calls and the fourth call declares convergence.
\<close>

theorem assess_convergence_fourth_check_counterexample:
  "below_threshold 0 1 0.000001
   \<and> assess_convergence ''medium'' 0 1 1 = Inr (2, False)
   \<and> assess_convergence ''medium'' 0 1 2 = Inr (3, False)
   \<and> assess_convergence ''medium'' 0 1 3 = Inr (4, False)
   \<and> assess_convergence ''medium'' 0 1 4 = Inr (5, True)
   \<and> assess_checks ''medium'' 1 1 [0, 0, 0, 0] = Inr (5, Some 4)"
  by (simp add: below_threshold_def assess_convergence_def convergence_threshold_def)

section \<open>The ELBO record: total and per-node entries\<close>

lemma map_of_series_set:
  "map_of (series_set s l v) k = (if k = l then map_option (\<lambda>_. v) (map_of s k) else map_of s k)"
  unfolding series_set_def by (induction s) auto

lemma series_set_absent: "l \<notin> fst ` set s \<Longrightarrow> series_set s l v = s"
  unfolding series_set_def by (induction s) auto

lemma series_set_append: "series_set (a @ b) l v = series_set a l v @ series_set b l v"
  unfolding series_set_def by simp

lemma series_set_Cons:
  "series_set ((k, x) # s) l v = (k, if k = l then v else x) # series_set s l v"
  unfolding series_set_def by simp

lemma series_set_Nil: "series_set [] l v = []"
  unfolding series_set_def by simp

lemma series_set_map_absent:
  "l \<notin> set xs \<Longrightarrow> series_set (map (\<lambda>n. (n, g n)) xs) l v = map (\<lambda>n. (n, g n)) xs"
  by (rule series_set_absent) (auto simp: image_iff)

lemma map_of_map_present: "l \<in> set xs \<Longrightarrow> map_of (map (\<lambda>n. (n, g n)) xs) l = Some (g l)"
  by (induction xs) auto

lemma map_of_map_absent: "l \<notin> set xs \<Longrightarrow> map_of (map (\<lambda>n. (n, g n)) xs) l = None"
  by (induction xs) auto

lemma elbo_partial_set_node:
  assumes "n \<notin> set done" "n \<notin> set rest" "n \<noteq> ''total''"
  shows "series_set (elbo_partial f done (n # rest)) n (f n) =
         map (\<lambda>n. (n, f n)) (done @ [n]) @ map (\<lambda>n. (n, 0)) rest
           @ [(''total'', sum_list (map f done))]"
  using assms
  by (simp add: elbo_partial_def series_set_append series_set_Cons series_set_Nil
      series_set_map_absent)

lemma elbo_partial_set_total:
  assumes "''total'' \<notin> set xs" "''total'' \<notin> set rest"
  shows "series_set (map (\<lambda>n. (n, f n)) xs @ map (\<lambda>n. (n, 0)) rest @ [(''total'', t)])
           ''total'' t' =
         map (\<lambda>n. (n, f n)) xs @ map (\<lambda>n. (n, 0)) rest @ [(''total'', t')]"
  using assms
  by (simp add: series_set_append series_set_Cons series_set_Nil series_set_map_absent)

lemma get_node_after_set:
  assumes "n \<notin> set done"
  shows "series_get (map (\<lambda>n. (n, f n)) (done @ [n]) @ s) n = Inr (f n)"
  using assms by (simp add: series_get_def map_add_def map_of_map_absent)

lemma get_total_partial:
  assumes "''total'' \<notin> set xs" "''total'' \<notin> set rest"
  shows "series_get (map (\<lambda>n. (n, f n)) xs @ map (\<lambda>n. (n, 0)) rest @ [(''total'', t)]) ''total''
          = Inr t"
  using assms by (simp add: series_get_def map_add_def map_of_map_absent)

lemma calculateELBO_loop_partial:
  assumes "distinct (done @ rest)" "''total'' \<notin> set (done @ rest)"
    "set rest \<subseteq> set (node_names nm)"
  shows "calculateELBO_loop nm w rest (elbo_partial (\<lambda>n. node_calculateELBO nm n w) done rest)
           = Inr (elbo_partial (\<lambda>n. node_calculateELBO nm n w) (done @ rest) [])"
  using assms
proof (induction rest arbitrary: "done")
  case Nil
  then show ?case by simp
next
  case (Cons n rest)
  let ?f = "\<lambda>n. node_calculateELBO nm n w"
  have d: "distinct ((done @ [n]) @ rest)" "''total'' \<notin> set ((done @ [n]) @ rest)"
    "set rest \<subseteq> set (node_names nm)"
    using Cons.prems by auto
  have n: "n \<notin> set done" "n \<notin> set rest" "n \<noteq> ''total''" "n \<in> set (node_names nm)"
    "''total'' \<notin> set (done @ [n])" "''total'' \<notin> set rest"
    using Cons.prems by auto
  have 1: "series_set (elbo_partial ?f done (n # rest)) n (?f n) =
         map (\<lambda>n. (n, ?f n)) (done @ [n]) @ map (\<lambda>n. (n, 0)) rest
           @ [(''total'', sum_list (map ?f done))]"
    by (rule elbo_partial_set_node [OF n(1,2,3)])
  have 2: "series_get (map (\<lambda>n. (n, ?f n)) (done @ [n]) @ map (\<lambda>n. (n, 0)) rest
           @ [(''total'', sum_list (map ?f done))]) n = Inr (?f n)"
    by (rule get_node_after_set [OF n(1)])
  have 3: "series_get (map (\<lambda>n. (n, ?f n)) (done @ [n]) @ map (\<lambda>n. (n, 0)) rest
           @ [(''total'', sum_list (map ?f done))]) ''total'' = Inr (sum_list (map ?f done))"
    by (rule get_total_partial [OF n(5,6)])
  have 4: "series_set (map (\<lambda>n. (n, ?f n)) (done @ [n]) @ map (\<lambda>n. (n, 0)) rest
           @ [(''total'', sum_list (map ?f done))]) ''total'' (sum_list (map ?f done) + ?f n)
         = elbo_partial ?f (done @ [n]) rest"
    unfolding elbo_partial_def
    by (subst elbo_partial_set_total [OF n(5,6)]) simp
  have "calculateELBO_loop nm w (n # rest) (elbo_partial ?f done (n # rest))
        = calculateELBO_loop nm w rest (elbo_partial ?f (done @ [n]) rest)"
    using n(4) by (simp only: calculateELBO_loop.simps Let_def 1 2 3 4 sum.case simp_thms if_False)
  then show ?case using Cons.IH [OF d] by simp
qed

lemma calculateELBO_loop_result:
  assumes "distinct ns" "''total'' \<notin> set ns" "set ns \<subseteq> set (node_names nm)"
  shows "calculateELBO_loop nm w ns (map (\<lambda>n. (n, 0)) ns @ [(''total'', 0)])
    = Inr (map (\<lambda>n. (n, node_calculateELBO nm n w)) ns
           @ [(''total'', sum_list (map (\<lambda>n. node_calculateELBO nm n w) ns))])"
  using calculateELBO_loop_partial [of "[]" ns nm w] assms
  by (simp add: elbo_partial_def)

lemma record_of_result:
  assumes "''total'' \<notin> set ns"
  shows "record_total (map (\<lambda>n. (n, f n)) ns @ [(''total'', t)]) = Inr t"
    and "record_node_sum (map (\<lambda>n. (n, f n)) ns @ [(''total'', t)]) = sum_list (map f ns)"
proof -
  show "record_total (map (\<lambda>n. (n, f n)) ns @ [(''total'', t)]) = Inr t"
    using assms by (simp add: record_total_def series_get_def map_add_def map_of_map_absent)
  have "filter (\<lambda>(k, x). k \<noteq> ''total'') (map (\<lambda>n. (n, f n)) ns) = map (\<lambda>n. (n, f n)) ns"
    using assms by (induction ns) auto
  then show "record_node_sum (map (\<lambda>n. (n, f n)) ns @ [(''total'', t)]) = sum_list (map f ns)"
    by (simp add: record_node_sum_def comp_def)
qed

text \<open>
  Claim C1: every record that \<open>calculateELBO\<close> produces has one entry per node asked
  for (all variational nodes when none is named), holding that node's contribution,
  and a \<open>total\<close> entry equal to the sum of the per-node entries of the same record.
  The node names are the keys of a dict, hence distinct, and no node is called
  \<open>total\<close>. Floats are taken as reals, where the sum is exact.
\<close>

theorem calculateELBO_total_is_sum:
  assumes "distinct (node_names nm)" "''total'' \<notin> set (node_names nm)"
    "distinct ns" "set ns \<subseteq> set (node_names nm)"
  shows "\<exists>row. calculateELBO nm w ns = Inr row
    \<and> map fst row = (if ns = [] then getVariationalNodes nm else ns) @ [''total'']
    \<and> (\<forall>n \<in> set (if ns = [] then getVariationalNodes nm else ns).
          series_get row n = Inr (node_calculateELBO nm n w))
    \<and> record_total row = Inr (record_node_sum row)"
proof -
  let ?ns = "if ns = [] then getVariationalNodes nm else ns"
  let ?f = "\<lambda>n. node_calculateELBO nm n w"
  let ?row = "map (\<lambda>n. (n, ?f n)) ?ns @ [(''total'', sum_list (map ?f ?ns))]"
  have d: "distinct ?ns" "''total'' \<notin> set ?ns" "set ?ns \<subseteq> set (node_names nm)"
    using assms by (auto simp: getVariationalNodes_def)
  have r: "calculateELBO nm w ns = Inr ?row"
    using calculateELBO_loop_result [OF d, of w] by (simp add: calculateELBO_def Let_def)
  have g: "series_get ?row n = Inr (?f n)" if "n \<in> set ?ns" for n
  proof -
    have "map_of (map (\<lambda>n. (n, ?f n)) ?ns) n = Some (?f n)"
      using that by (rule map_of_map_present)
    then show ?thesis by (simp add: series_get_def map_add_def)
  qed
  have k: "map fst ?row = ?ns @ [''total'']" by (simp add: comp_def)
  show ?thesis
    using r g k record_of_result [OF d(2), of ?f "sum_list (map ?f ?ns)"]
    by (intro exI [of _ ?row]) simp
qed

theorem calculateELBO_total_is_sum_witness:
  "distinct (node_names example_methods) \<and> ''total'' \<notin> set (node_names example_methods)
   \<and> calculateELBO example_methods (node_state example_net) []
       = Inr [(''Z'', - 3), (''W'', - 2), (''Tau'', 1 / 2), (''AlphaZ'', 1 / 2), (''total'', - 4)]
   \<and> (\<exists>row. calculateELBO example_methods (node_state example_net) [] = Inr row
        \<and> record_total row = Inr (record_node_sum row))"
proof -
  have h: "distinct (node_names example_methods)" "''total'' \<notin> set (node_names example_methods)"
    by (simp_all add: example_methods_def)
  have c: "calculateELBO example_methods (node_state example_net) []
       = Inr [(''Z'', - 3), (''W'', - 2), (''Tau'', 1 / 2), (''AlphaZ'', 1 / 2), (''total'', - 4)]"
    by (simp add: calculateELBO_def getVariationalNodes_def example_methods_def
        series_set_def series_get_def)
  show ?thesis
    using h c calculateELBO_total_is_sum [OF h, of "[]" "node_state example_net"]
    by auto
qed

section \<open>Factor pruning: one matrix behind every group\<close>

lemma example_variance_explained:
  "calculate_variance_explained example_methods example_net = ([0, 0], [[[Some 0, Some 1]]])"
  by code_simp

lemma example_columns: "columns_not_above [[Some 0, Some 1]] 2 (1 / 2) = [0]"
  by code_simp

lemma example_removeFactors:
  "fold (\<lambda>node. node_removeFactors example_methods node [0]) (node_names example_methods)
     (node_state example_net) = ([[1], [1]], [[[1]]])"
  by code_simp

text \<open>
  What holds of every run of \<open>removeInactiveFactors\<close> that returns: at most one factor
  is removed, it is a factor index below \<open>K\<close>, \<open>removeFactors\<close> is called with it on
  every node of the registry, \<open>K\<close> goes down by the number removed, and the new \<open>K\<close>
  is not 0 (that case exits).
\<close>

lemma removeInactiveFactors_result:
  assumes "removeInactiveFactors nm rnd min_r2 bn = Inr bn'"
  shows "\<exists>dropped. length dropped \<le> 1 \<and> set dropped \<subseteq> {0..<nat (dim_K bn)}
     \<and> dim_K bn' = dim_K bn - int (length dropped) \<and> dim_K bn' \<noteq> 0
     \<and> node_state bn' = (if dropped = [] then node_state bn
          else fold (\<lambda>node. node_removeFactors nm node dropped) (node_names nm) (node_state bn))"
proof -
  obtain t where t: "min_r2 = Some t"
    using assms by (cases min_r2) (auto simp: removeInactiveFactors_def)
  obtain r2 h where c: "calculate_variance_explained nm bn = (r2, h)"
    by (cases "calculate_variance_explained nm bn")
  define tmp where "tmp = map (\<lambda>g. columns_not_above (h ! (r2 ! g)) (nat (dim_K bn)) t) [0..<dim_G bn]"
  define cands where "cands = filter (\<lambda>k. list_all (\<lambda>c. k \<in> set c) tmp) [0..<nat (dim_K bn)]"
  define dropped where "dropped = (if length cands > 0 then [cands ! (rnd mod length cands)] else cands)"
  have in_cands: "cands ! (rnd mod length cands) \<in> set cands" if "cands \<noteq> []"
    using that by simp
  have sub: "set cands \<subseteq> {0..<nat (dim_K bn)}"
    by (auto simp: cands_def)
  have d: "length dropped \<le> 1" "set dropped \<subseteq> {0..<nat (dim_K bn)}"
  proof -
    show "length dropped \<le> 1" by (simp add: dropped_def)
    show "set dropped \<subseteq> {0..<nat (dim_K bn)}"
    proof (cases "cands = []")
      case True
      then show ?thesis by (simp add: dropped_def)
    next
      case False
      then have "set dropped = {cands ! (rnd mod length cands)}" by (simp add: dropped_def)
      moreover have "cands ! (rnd mod length cands) < nat (dim_K bn)"
        using in_cands [OF False] sub by (simp add: subset_iff)
      ultimately show ?thesis by simp
    qed
  qed
  have r: "dim_K bn - int (length dropped) \<noteq> 0 \<and>
      bn' = bn\<lparr>dim_K := dim_K bn - int (length dropped),
               node_state := (if length dropped > 0
                  then fold (\<lambda>node. node_removeFactors nm node dropped) (node_names nm) (node_state bn)
                  else node_state bn)\<rparr>"
    using assms unfolding removeInactiveFactors_def t c
    by (auto simp: Let_def tmp_def [symmetric] cands_def [symmetric] dropped_def
        split: if_splits)
  show ?thesis
    using d r by (intro exI [of _ dropped]) auto
qed

text \<open>
  Claim C3 at a concrete network (\<open>example_net\<close>, threshold \<open>min_r2 = 0.5\<close>): factor 0
  has \<open>R\<^sup>2 = 1\<close> in group 0, above the threshold, so by the claim it is not eligible
  and nothing is to be removed. The code writes the entries of every group into the
  one matrix that all of \<open>r2[0]\<close>, \<open>r2[1]\<close> refer to, so what it reads back for
  group 0 are the entries of group 1, where factor 0 has \<open>R\<^sup>2 = 0\<close>; it removes
  factor 0, for every random draw.
\<close>

theorem removeInactiveFactors_reads_last_group:
  "r2_entry (Z_expectation example_methods (node_state example_net))
      (W_expectation example_methods (node_state example_net) ! 0)
      (Y_expectation example_methods (node_state example_net) ! 0)
      (AlphaZ_groups example_methods (node_state example_net)) 0 0 = Some 1
   \<and> exceeds (Some 1) 0.5
   \<and> calculate_variance_explained example_methods example_net = ([0, 0], [[[Some 0, Some 1]]])
   \<and> removeInactiveFactors example_methods rnd (Some 0.5) example_net
       = Inr (example_net\<lparr>dim_K := 1, node_state := ([[1], [1]], [[[1]]])\<rparr>)"
proof -
  have e: "r2_entry (Z_expectation example_methods (node_state example_net))
      (W_expectation example_methods (node_state example_net) ! 0)
      (Y_expectation example_methods (node_state example_net) ! 0)
      (AlphaZ_groups example_methods (node_state example_net)) 0 0 = Some 1"
    by code_simp
  have k: "nat (dim_K example_net) = 2" "dim_G example_net = 2" "dim_K example_net = 2"
    by (simp_all add: example_net_def)
  have u: "[0..<2] = [0, Suc 0]"
    by (simp add: upt_rec [of 0] upt_rec [of 1] numeral_2_eq_2)
  have r: "removeInactiveFactors example_methods rnd (Some 0.5) example_net
       = Inr (example_net\<lparr>dim_K := 1, node_state := ([[1], [1]], [[[1]]])\<rparr>)"
    unfolding removeInactiveFactors_def example_variance_explained k
    by (simp add: u example_columns example_removeFactors k)
  show ?thesis
    using e r example_variance_explained by (simp add: exceeds_def)
qed

section \<open>Convergence is assessed only after \<open>start_elbo\<close>\<close>

lemma iloc_set_length: "iloc_set tab i v = Inr tab' \<Longrightarrow> length tab' = length tab"
  by (auto simp: iloc_set_def Let_def split: if_splits)

lemma py_slice_prefix_length:
  "0 \<le> i \<Longrightarrow> i \<le> int (length xs) \<Longrightarrow> length (py_slice xs 0 i) = nat i"
  by (auto simp: py_slice_def Let_def min_def)

lemma elbo_checkpoint_not_assessed:
  assumes "elbo_checkpoint nm opts i bn lv = Inr (lv', brk)"
    and "i \<le> start_elbo opts \<or> forceiter opts"
  shows "convergence_token lv' = convergence_token lv \<and> converged lv' = converged lv \<and> \<not> brk"
  using assms unfolding elbo_checkpoint_def
  by (auto simp: Let_def split: if_splits sum.splits)

lemma elbo_checkpoint_continue:
  assumes "elbo_checkpoint nm opts i bn lv = Inr (lv', False)"
  shows "length (elbo_table lv') = length (elbo_table lv)
     \<and> (\<not> converged lv \<longrightarrow> \<not> converged lv')"
  using assms unfolding elbo_checkpoint_def
  by (auto simp: Let_def split: if_splits sum.splits prod.splits dest: iloc_set_length)

lemma elbo_checkpoint_break:
  assumes "elbo_checkpoint nm opts i bn lv = Inr (lv', True)"
  shows "start_elbo opts < i \<and> \<not> forceiter opts \<and> elbofreq opts \<noteq> 0
     \<and> (i - start_elbo opts) mod elbofreq opts = 0
     \<and> converged lv' \<and> convergence_token lv' = 5
     \<and> (\<exists>tab. length tab = length (elbo_table lv) \<and> elbo_table lv' = py_slice tab 0 i)"
proof -
  have c: "assess_convergence_nan m d f t = Inr (t', True) \<Longrightarrow> t' = 5" for m d f t t'
    by (auto simp: assess_convergence_nan_def assess_convergence_def
        split: option.splits sum.splits if_splits)
  show ?thesis
    using assms unfolding elbo_checkpoint_def
    by (auto simp: Let_def split: if_splits sum.splits prod.splits dest: iloc_set_length c)
qed

lemma prune_step_vars:
  assumes "prune_step nm opts rnd i bn lv = Inr (bn1, lv1)"
  shows "elbo_table lv1 = elbo_table lv \<and> convergence_token lv1 = convergence_token lv
     \<and> converged lv1 = converged lv"
  using assms unfolding prune_step_def
  by (auto split: if_splits sum.splits)

lemma iterate_body_checkpoint:
  assumes "iterate_body nm opts rnd i bn lv = Inr (bn1, lv1, brk)"
  shows "\<exists>bn2 lv0. elbo_table lv0 = elbo_table lv \<and> convergence_token lv0 = convergence_token lv
     \<and> converged lv0 = converged lv \<and> elbo_checkpoint nm opts i bn2 lv0 = Inr (lv1, brk)"
  using assms unfolding iterate_body_def
  by (auto simp: Let_def split: sum.splits prod.splits dest: prune_step_vars)

lemma stochastic_body_checkpoint:
  assumes "stochastic_body nm opts perms rnd i ix bn lv = Inr (ix1, bn1, lv1, brk)"
  shows "\<exists>bn2 lv0. elbo_table lv0 = elbo_table lv \<and> convergence_token lv0 = convergence_token lv
     \<and> converged lv0 = converged lv \<and> elbo_checkpoint nm opts i bn2 lv0 = Inr (lv1, brk)"
  using assms unfolding stochastic_body_def
  by (auto simp: Let_def split: sum.splits prod.splits if_splits py_number.splits
      dest: prune_step_vars)

lemma checkpoint_step:
  assumes chk: "elbo_checkpoint nm opts i bn2 lv0 = Inr (lv1, brk)"
    and same: "elbo_table lv0 = elbo_table lv" "converged lv0 = converged lv"
    and inv: "\<not> converged lv" "length (elbo_table lv) = nat (maxiter opts + 1)"
    and i: "0 \<le> i" "i < maxiter opts"
  shows "(brk \<longrightarrow> converged lv1 \<and> declared_at opts i lv1)
     \<and> (\<not> brk \<longrightarrow> \<not> converged lv1 \<and> length (elbo_table lv1) = nat (maxiter opts + 1))"
proof (cases brk)
  case True
  then have chk': "elbo_checkpoint nm opts i bn2 lv0 = Inr (lv1, True)" using chk by simp
  obtain tab where t: "start_elbo opts < i" "\<not> forceiter opts" "elbofreq opts \<noteq> 0"
      "(i - start_elbo opts) mod elbofreq opts = 0" "converged lv1" "convergence_token lv1 = 5"
      "length tab = length (elbo_table lv0)" "elbo_table lv1 = py_slice tab 0 i"
    using elbo_checkpoint_break [OF chk'] by (elim exE conjE) (rule that)
  have "i \<le> int (length tab)" using t(7) same(1) inv(2) i by simp
  then have "length (elbo_table lv1) = nat i"
    using py_slice_prefix_length [OF i(1), of tab] t(8) by simp
  then show ?thesis using True t i by (simp add: declared_at_def)
next
  case False
  then show ?thesis
    using elbo_checkpoint_continue [of nm opts i bn2 lv0 lv1] chk same inv by simp
qed

lemma iterate_loop_declared:
  assumes "iterate_loop nm opts rnds i bn lv = Inr (bn', lv')"
    and "\<not> converged lv" "length (elbo_table lv) = nat (maxiter opts + 1)" "0 \<le> i"
  shows "converged lv' \<longrightarrow> (\<exists>j\<ge>i. declared_at opts j lv')"
  using assms
proof (induction nm opts rnds i bn lv rule: iterate_loop.induct)
  case (1 nm opts rnds i bn lv)
  note eq = iterate_loop.simps [of nm opts rnds i bn lv]
  show ?case
  proof (cases "i < maxiter opts")
    case False
    then show ?thesis using "1.prems" by (simp add: eq)
  next
    case True
    obtain bn1 lv1 brk where b: "iterate_body nm opts (rnds i) i bn lv = Inr (bn1, lv1, brk)"
      using "1.prems"(1) True by (auto simp: eq split: sum.splits)
    obtain bn2 lv0 where c: "elbo_table lv0 = elbo_table lv" "converged lv0 = converged lv"
        "elbo_checkpoint nm opts i bn2 lv0 = Inr (lv1, brk)"
      using iterate_body_checkpoint [OF b] by (elim exE conjE) (rule that)
    note st = checkpoint_step [OF c(3) c(1,2) "1.prems"(2,3) "1.prems"(4) True]
    show ?thesis
    proof (cases brk)
      case True
      then have "lv' = lv1" using "1.prems"(1) b \<open>i < maxiter opts\<close> by (simp add: eq)
      then show ?thesis using st True by auto
    next
      case False
      then have r: "iterate_loop nm opts rnds (i + 1) bn1 lv1 = Inr (bn', lv')"
        using "1.prems"(1) b True by (simp add: eq)
      have "converged lv' \<longrightarrow> (\<exists>j\<ge>i + 1. declared_at opts j lv')"
        using "1.IH" [OF True b refl refl False r] st False "1.prems"(4) by simp
      then show ?thesis by (meson add_increasing2 zero_le_one order_trans le_add_same_cancel1)
    qed
  qed
qed

lemma stochastic_loop_declared:
  assumes "stochastic_loop nm opts perms rnds i ix bn lv = Inr (bn', lv')"
    and "\<not> converged lv" "length (elbo_table lv) = nat (maxiter opts + 1)" "0 \<le> i"
  shows "converged lv' \<longrightarrow> (\<exists>j\<ge>i. declared_at opts j lv')"
  using assms
proof (induction nm opts perms rnds i ix bn lv rule: stochastic_loop.induct)
  case (1 nm opts perms rnds i ix bn lv)
  note eq = stochastic_loop.simps [of nm opts perms rnds i ix bn lv]
  show ?case
  proof (cases "i < maxiter opts")
    case False
    then show ?thesis using "1.prems" by (simp add: eq)
  next
    case True
    obtain ix1 bn1 lv1 brk where
      b: "stochastic_body nm opts perms (rnds i) i ix bn lv = Inr (ix1, bn1, lv1, brk)"
      using "1.prems"(1) True by (auto simp: eq split: sum.splits)
    obtain bn2 lv0 where c: "elbo_table lv0 = elbo_table lv" "converged lv0 = converged lv"
        "elbo_checkpoint nm opts i bn2 lv0 = Inr (lv1, brk)"
      using stochastic_body_checkpoint [OF b] by (elim exE conjE) (rule that)
    note st = checkpoint_step [OF c(3) c(1,2) "1.prems"(2,3) "1.prems"(4) True]
    show ?thesis
    proof (cases brk)
      case True
      then have "lv' = lv1" using "1.prems"(1) b \<open>i < maxiter opts\<close> by (simp add: eq)
      then show ?thesis using st True by auto
    next
      case False
      then have r: "stochastic_loop nm opts perms rnds (i + 1) ix1 bn1 lv1 = Inr (bn', lv')"
        using "1.prems"(1) b True by (simp add: eq)
      have "converged lv' \<longrightarrow> (\<exists>j\<ge>i + 1. declared_at opts j lv')"
        using "1.IH" [OF True b refl refl refl False r] st False "1.prems"(4) by simp
      then show ?thesis by (meson add_increasing2 zero_le_one order_trans le_add_same_cancel1)
    qed
  qed
qed

lemma iterate_init_vars:
  assumes "iterate_init nm opts bn = Inr (bn1, lv)"
  shows "\<not> converged lv \<and> convergence_token lv = 1
     \<and> length (elbo_table lv) = nat (maxiter opts + 1)"
  using assms unfolding iterate_init_def
  by (auto simp: Let_def split: if_splits sum.splits prod.splits dest: iloc_set_length)

text \<open>
  Claim C10: a checkpoint at an iteration \<open>i \<le> start_elbo\<close> (the first one,
  \<open>i = start_elbo\<close>, among them) leaves the convergence counter and the flag as they
  are and does not leave the loop, whatever the ELBO values and whether or not
  iterations are forced; and when either training loop ends with convergence declared,
  it was declared at an iteration \<open>j\<close> of the loop that is a checkpoint strictly after
  \<open>start_elbo\<close> (the ELBO table is then cut to \<open>j\<close> rows).
\<close>

theorem convergence_only_after_start_elbo:
  "(elbo_checkpoint nm opts i bn lv = Inr (lv1, brk) \<and> i \<le> start_elbo opts \<longrightarrow>
      convergence_token lv1 = convergence_token lv \<and> converged lv1 = converged lv \<and> \<not> brk)
   \<and> (iterate nm opts rnds bn = Inr (bn', lv') \<and> converged lv' \<longrightarrow>
      (\<exists>j. 1 \<le> j \<and> j < maxiter opts \<and> start_elbo opts < j
         \<and> (j - start_elbo opts) mod elbofreq opts = 0 \<and> elbofreq opts \<noteq> 0
         \<and> \<not> forceiter opts \<and> length (elbo_table lv') = nat j))
   \<and> (stochastic_iterate nm opts perms rnds bn = Inr (bn'', lv'') \<and> converged lv'' \<longrightarrow>
      (\<exists>j. 1 \<le> j \<and> j < maxiter opts \<and> start_elbo opts < j
         \<and> (j - start_elbo opts) mod elbofreq opts = 0 \<and> elbofreq opts \<noteq> 0
         \<and> \<not> forceiter opts \<and> length (elbo_table lv'') = nat j))"
proof (intro conjI impI)
  assume "elbo_checkpoint nm opts i bn lv = Inr (lv1, brk) \<and> i \<le> start_elbo opts"
  then have "convergence_token lv1 = convergence_token lv \<and> converged lv1 = converged lv \<and> \<not> brk"
    by (intro elbo_checkpoint_not_assessed [of nm opts i bn lv lv1 brk]) simp_all
  then show "convergence_token lv1 = convergence_token lv" "converged lv1 = converged lv" "\<not> brk"
    by simp_all
next
  assume a: "iterate nm opts rnds bn = Inr (bn', lv') \<and> converged lv'"
  then have it: "iterate nm opts rnds bn = Inr (bn', lv')" and cv: "converged lv'" by simp_all
  obtain bn1 lv0 where i: "iterate_init nm opts bn = Inr (bn1, lv0)"
    and l: "iterate_loop nm opts rnds 1 bn1 lv0 = Inr (bn', lv')"
  proof (cases "iterate_init nm opts bn")
    case (Inl e)
    then show ?thesis using it by (simp add: iterate_def)
  next
    case (Inr p)
    then show ?thesis using it that by (cases p) (simp add: iterate_def)
  qed
  have v: "\<not> converged lv0" "length (elbo_table lv0) = nat (maxiter opts + 1)"
    using iterate_init_vars [OF i] by simp_all
  have "converged lv' \<longrightarrow> (\<exists>j\<ge>1. declared_at opts j lv')"
    by (rule iterate_loop_declared [OF l v]) simp
  then obtain j where j: "1 \<le> j" "declared_at opts j lv'" using cv by (elim impE exE conjE)
  show "\<exists>j. 1 \<le> j \<and> j < maxiter opts \<and> start_elbo opts < j
         \<and> (j - start_elbo opts) mod elbofreq opts = 0 \<and> elbofreq opts \<noteq> 0
         \<and> \<not> forceiter opts \<and> length (elbo_table lv') = nat j"
    using j by (intro exI [of _ j]) (simp add: declared_at_def)
next
  assume a: "stochastic_iterate nm opts perms rnds bn = Inr (bn'', lv'') \<and> converged lv''"
  then have it: "stochastic_iterate nm opts perms rnds bn = Inr (bn'', lv'')"
    and cv: "converged lv''" by simp_all
  obtain bn1 lv0 where i: "iterate_init nm opts bn = Inr (bn1, lv0)"
    and l: "stochastic_loop nm opts perms rnds 1 None bn1 lv0 = Inr (bn'', lv'')"
  proof (cases "iterate_init nm opts bn")
    case (Inl e)
    then show ?thesis using it by (simp add: stochastic_iterate_def)
  next
    case (Inr p)
    then show ?thesis using it that by (cases p) (simp add: stochastic_iterate_def)
  qed
  have v: "\<not> converged lv0" "length (elbo_table lv0) = nat (maxiter opts + 1)"
    using iterate_init_vars [OF i] by simp_all
  have "converged lv'' \<longrightarrow> (\<exists>j\<ge>1. declared_at opts j lv'')"
    by (rule stochastic_loop_declared [OF l v]) simp
  then obtain j where j: "1 \<le> j" "declared_at opts j lv''" using cv by (elim impE exE conjE)
  show "\<exists>j. 1 \<le> j \<and> j < maxiter opts \<and> start_elbo opts < j
         \<and> (j - start_elbo opts) mod elbofreq opts = 0 \<and> elbofreq opts \<noteq> 0
         \<and> \<not> forceiter opts \<and> length (elbo_table lv'') = nat j"
    using j by (intro exI [of _ j]) (simp add: declared_at_def)
qed

theorem convergence_only_after_start_elbo_witness:
  "elbo_checkpoint example_methods example_options 1 example_net example_vars
     = Inr (example_vars\<lparr>elbo_table := [Some example_row, Some example_row]\<rparr>, False)
   \<and> start_elbo example_options = 1
   \<and> iterate example_methods example_options (\<lambda>i. 0) example_net = Inr (example_net, example_final)
   \<and> stochastic_iterate example_methods example_options (\<lambda>i. [1, 0]) (\<lambda>i. 0) example_net
       = Inr (example_net\<lparr>shuffled_ix := Some [1, 0]\<rparr>, example_final)
   \<and> converged example_final
   \<and> (\<exists>j. 1 \<le> j \<and> j < maxiter example_options \<and> start_elbo example_options < j
         \<and> length (elbo_table example_final) = nat j)"
proof -
  have c: "elbo_checkpoint example_methods example_options 1 example_net example_vars
     = Inr (example_vars\<lparr>elbo_table := [Some example_row, Some example_row]\<rparr>, False)"
    by code_simp
  have s: "start_elbo example_options = 1" by (simp add: example_options_def)
  have i: "iterate example_methods example_options (\<lambda>i. 0) example_net = Inr (example_net, example_final)"
    by code_simp
  have t: "stochastic_iterate example_methods example_options (\<lambda>i. [1, 0]) (\<lambda>i. 0) example_net
       = Inr (example_net\<lparr>shuffled_ix := Some [1, 0]\<rparr>, example_final)"
    by code_simp
  have f: "converged example_final" by (simp add: example_final_def)
  note T = convergence_only_after_start_elbo [where nm = example_methods and opts = example_options
        and i = 1 and bn = example_net and lv = example_vars
        and ?lv1.0 = "example_vars\<lparr>elbo_table := [Some example_row, Some example_row]\<rparr>"
        and brk = False and rnds = "\<lambda>i. 0" and bn' = example_net and lv' = example_final
        and perms = "\<lambda>i. [1, 0]" and bn'' = "example_net\<lparr>shuffled_ix := Some [1, 0]\<rparr>"
        and lv'' = example_final]
  have "\<exists>j. 1 \<le> j \<and> j < maxiter example_options \<and> start_elbo example_options < j
         \<and> (j - start_elbo example_options) mod elbofreq example_options = 0
         \<and> elbofreq example_options \<noteq> 0
         \<and> \<not> forceiter example_options \<and> length (elbo_table example_final) = nat j"
    using T [THEN conjunct2, THEN conjunct1] i f by (elim impE) (rule conjI)
  then have e: "\<exists>j. 1 \<le> j \<and> j < maxiter example_options \<and> start_elbo example_options < j
         \<and> length (elbo_table example_final) = nat j"
    by blast
  show ?thesis
    by (intro conjI) (rule c s i t f e)+
qed

section \<open>The noise precision node: update, ELBO and frame\<close>

lemma sum_list_minus: "(\<Sum>x\<leftarrow>xs. f x - g x) = (\<Sum>x\<leftarrow>xs. f x) - (\<Sum>x\<leftarrow>xs. (g x :: real))"
  by (induction xs) auto

lemma updateParameters_Inr:
  assumes "updateParameters w = Inr w'"
  shows "\<exists>qa. Qa_pre (tau w) = Some qa
    \<and> w' = w\<lparr>arrays := (arrays w)(Y_value w := mask_assign (arrays w (Y_value w)) (Y_msk w) 0),
              tau := (tau w)\<lparr>Q_a := qa,
                Q_b := (\<lambda>d. P_b (tau w) d
                  + (sum_axis0 (shape_N w) (np_square (mask_assign (arrays w (Y_value w)) (Y_msk w) 0)) d
                   + sum_axis0 (shape_N w) (mask_assign (np_dot (shape_K w) (Z_E2 w) (np_T (W_E2 w))) (Y_msk w) 0) d
                   + (- sum_axis0 (shape_N w) (mask_assign (np_dot (shape_K w) (np_square (Z_E w)) (np_T (np_square (W_E w)))) (Y_msk w) 0) d
                      + sum_axis0 (shape_N w) (np_square (mask_assign (np_dot (shape_K w) (Z_E w) (np_T (W_E w))) (Y_msk w) 0)) d)
                   - 2 * sum_axis0 (shape_N w) (np_mul (mask_assign (np_dot (shape_K w) (Z_E w) (np_T (W_E w))) (Y_msk w) 0)
                          (mask_assign (arrays w (Y_value w)) (Y_msk w) 0)) d) / 2)\<rparr>\<rparr>"
  using assms unfolding updateParameters_def Y_getExpectation_def
  by (auto simp: Let_def split: option.splits)

lemma term1_eq:
  "sum_axis0 (shape_N w) (np_square (mask_assign (arrays w (Y_value w)) (Y_msk w) 0)) d = spec_term1 w d"
  unfolding sum_axis0_def np_square_def mask_assign_def spec_term1_def
  by (intro arg_cong [where f = sum_list] map_cong refl) simp_all

lemma term2_eq:
  "sum_axis0 (shape_N w) (mask_assign (np_dot (shape_K w) (Z_E2 w) (np_T (W_E2 w))) (Y_msk w) 0) d
     = spec_term2 w d"
  unfolding sum_axis0_def mask_assign_def np_dot_def np_T_def spec_term2_def
  by (rule refl)

lemma term3_eq:
  "- sum_axis0 (shape_N w) (mask_assign (np_dot (shape_K w) (np_square (Z_E w)) (np_T (np_square (W_E w)))) (Y_msk w) 0) d
     + sum_axis0 (shape_N w) (np_square (mask_assign (np_dot (shape_K w) (Z_E w) (np_T (W_E w))) (Y_msk w) 0)) d
     = spec_term3 w d"
proof -
  let ?f = "\<lambda>n. if Y_msk w n d then 0 else (\<Sum>k\<leftarrow>[0..<shape_K w]. Z_E w n k * W_E w d k)\<^sup>2"
  let ?g = "\<lambda>n. if Y_msk w n d then 0 else (\<Sum>k\<leftarrow>[0..<shape_K w]. (Z_E w n k)\<^sup>2 * (W_E w d k)\<^sup>2)"
  have a: "sum_axis0 (shape_N w) (np_square (mask_assign (np_dot (shape_K w) (Z_E w) (np_T (W_E w))) (Y_msk w) 0)) d
        = (\<Sum>n\<leftarrow>[0..<shape_N w]. ?f n)"
    unfolding sum_axis0_def np_square_def mask_assign_def np_dot_def np_T_def
    by (intro arg_cong [where f = sum_list] map_cong refl) simp_all
  have b: "sum_axis0 (shape_N w) (mask_assign (np_dot (shape_K w) (np_square (Z_E w)) (np_T (np_square (W_E w)))) (Y_msk w) 0) d
        = (\<Sum>n\<leftarrow>[0..<shape_N w]. ?g n)"
    unfolding sum_axis0_def np_square_def mask_assign_def np_dot_def np_T_def
    by (rule refl)
  have c: "spec_term3 w d = (\<Sum>n\<leftarrow>[0..<shape_N w]. ?f n - ?g n)"
    unfolding spec_term3_def
    by (intro arg_cong [where f = sum_list] map_cong refl) simp_all
  show ?thesis unfolding a b c sum_list_minus by simp
qed

lemma term4_eq:
  "2 * sum_axis0 (shape_N w) (np_mul (mask_assign (np_dot (shape_K w) (Z_E w) (np_T (W_E w))) (Y_msk w) 0)
                          (mask_assign (arrays w (Y_value w)) (Y_msk w) 0)) d = spec_term4 w d"
  unfolding sum_axis0_def np_mul_def mask_assign_def np_dot_def np_T_def spec_term4_def
  by (intro arg_cong [where f = "\<lambda>x. 2 * x"] arg_cong [where f = sum_list] map_cong refl) simp_all

lemma count_axis0_card: "count_axis0 N msk d = card {n. n < N \<and> msk n d}"
proof -
  have "distinct (filter (\<lambda>n. msk n d) [0..<N])" by simp
  then have "length (filter (\<lambda>n. msk n d) [0..<N]) = card (set (filter (\<lambda>n. msk n d) [0..<N]))"
    by (rule distinct_card [symmetric])
  also have "set (filter (\<lambda>n. msk n d) [0..<N]) = {n. n < N \<and> msk n d}" by auto
  finally show ?thesis unfolding count_axis0_def .
qed

lemma observed_count:
  "real N - real (count_axis0 N msk d) = real (card {n. n < N \<and> \<not> msk n d})"
proof -
  have f: "finite {n. n < N \<and> msk n d}" "finite {n. n < N \<and> \<not> msk n d}" by simp_all
  have "{n. n < N \<and> msk n d} \<union> {n. n < N \<and> \<not> msk n d} = {..<N}" by auto
  moreover have "{n. n < N \<and> msk n d} \<inter> {n. n < N \<and> \<not> msk n d} = {}" by auto
  ultimately have "card {n. n < N \<and> msk n d} + card {n. n < N \<and> \<not> msk n d} = N"
    using card_Un_disjoint [OF f] by simp
  then show ?thesis by (simp add: count_axis0_card)
qed

lemma updateParameters_precomputed:
  "\<exists>w'. updateParameters (TauD_precompute lgamma g w) = Inr w'"
  unfolding updateParameters_def TauD_precompute_def Y_getExpectation_def
  by (simp add: Let_def)

lemma precompute_Qa_pre:
  "Qa_pre (tau (TauD_precompute lgamma g w))
     = Some (\<lambda>d. P_a (tau w) d + real (card {n. n < shape_N w \<and> \<not> Y_msk w n d}) / 2)"
  unfolding TauD_precompute_def Y_getExpectation_def
  by (simp add: Let_def observed_count)

text \<open>
  Claim C5: when \<open>updateParameters\<close> returns, the new rate of \<open>Q\<close> is, for every
  feature, \<open>b_P + (term1 + term2 + term3 - term4)/2\<close> with the four terms as the
  specification words them, and the new shape of \<open>Q\<close> is the array \<open>Qa_pre\<close>, which
  the update does not change (so the shape stays the same over repeated updates);
  \<open>precompute\<close> sets \<open>Qa_pre\<close> to \<open>a_P\<close> plus half the number of non-missing
  observations of the feature, and after it the update returns.
\<close>

theorem updateParameters_postcondition:
  "(updateParameters w = Inr w' \<longrightarrow>
      (\<forall>d. Q_b (tau w') d =
            P_b (tau w) d + (spec_term1 w d + spec_term2 w d + spec_term3 w d - spec_term4 w d) / 2)
      \<and> Qa_pre (tau w) = Some (Q_a (tau w'))
      \<and> Qa_pre (tau w') = Qa_pre (tau w)
      \<and> P_a (tau w') = P_a (tau w) \<and> P_b (tau w') = P_b (tau w)
      \<and> (\<forall>w''. updateParameters w' = Inr w'' \<longrightarrow> Q_a (tau w'') = Q_a (tau w')))
   \<and> Qa_pre (tau (TauD_precompute lgamma g w))
       = Some (\<lambda>d. P_a (tau w) d + real (card {n. n < shape_N w \<and> \<not> Y_msk w n d}) / 2)
   \<and> (\<exists>w1. updateParameters (TauD_precompute lgamma g w) = Inr w1)"
proof (intro conjI impI)
  assume a: "updateParameters w = Inr w'"
  obtain qa where q: "Qa_pre (tau w) = Some qa"
    and w': "w' = w\<lparr>arrays := (arrays w)(Y_value w := mask_assign (arrays w (Y_value w)) (Y_msk w) 0),
              tau := (tau w)\<lparr>Q_a := qa,
                Q_b := (\<lambda>d. P_b (tau w) d
                  + (sum_axis0 (shape_N w) (np_square (mask_assign (arrays w (Y_value w)) (Y_msk w) 0)) d
                   + sum_axis0 (shape_N w) (mask_assign (np_dot (shape_K w) (Z_E2 w) (np_T (W_E2 w))) (Y_msk w) 0) d
                   + (- sum_axis0 (shape_N w) (mask_assign (np_dot (shape_K w) (np_square (Z_E w)) (np_T (np_square (W_E w)))) (Y_msk w) 0) d
                      + sum_axis0 (shape_N w) (np_square (mask_assign (np_dot (shape_K w) (Z_E w) (np_T (W_E w))) (Y_msk w) 0)) d)
                   - 2 * sum_axis0 (shape_N w) (np_mul (mask_assign (np_dot (shape_K w) (Z_E w) (np_T (W_E w))) (Y_msk w) 0)
                          (mask_assign (arrays w (Y_value w)) (Y_msk w) 0)) d) / 2)\<rparr>\<rparr>"
    using updateParameters_Inr [OF a] by (elim exE conjE) (rule that)
  show "\<forall>d. Q_b (tau w') d =
            P_b (tau w) d + (spec_term1 w d + spec_term2 w d + spec_term3 w d - spec_term4 w d) / 2"
    unfolding w' by (simp only: term1_eq term2_eq term3_eq term4_eq) simp
  show qa: "Qa_pre (tau w) = Some (Q_a (tau w'))" unfolding w' using q by simp
  show pre: "Qa_pre (tau w') = Qa_pre (tau w)" unfolding w' by simp
  show "P_a (tau w') = P_a (tau w)" unfolding w' by simp
  show "P_b (tau w') = P_b (tau w)" unfolding w' by simp
  show "\<forall>w''. updateParameters w' = Inr w'' \<longrightarrow> Q_a (tau w'') = Q_a (tau w')"
  proof (intro allI impI)
    fix w'' assume b: "updateParameters w' = Inr w''"
    obtain qb where "Qa_pre (tau w') = Some qb" "Q_a (tau w'') = qb"
      using updateParameters_Inr [OF b] by (elim exE conjE) simp
    then show "Q_a (tau w'') = Q_a (tau w')" using pre qa by simp
  qed
next
  show "Qa_pre (tau (TauD_precompute lgamma g w))
       = Some (\<lambda>d. P_a (tau w) d + real (card {n. n < shape_N w \<and> \<not> Y_msk w n d}) / 2)"
    by (rule precompute_Qa_pre)
next
  show "\<exists>w1. updateParameters (TauD_precompute lgamma g w) = Inr w1"
    by (rule updateParameters_precomputed)
qed

theorem updateParameters_postcondition_witness:
  "\<exists>w'. updateParameters (example_tau\<lparr>Y_msk := (\<lambda>n d. False)\<rparr>) = Inr w'
      \<and> Q_b (tau w') 0 = 21 / 2 \<and> Q_a (tau w') 0 = 1"
proof -
  let ?w = "example_tau\<lparr>Y_msk := (\<lambda>n d. False)\<rparr>"
  have q: "Qa_pre (tau ?w) = Some (\<lambda>d. 1)" by (simp add: example_tau_def)
  obtain w' where u: "updateParameters ?w = Inr w'"
    using q by (simp add: updateParameters_def Y_getExpectation_def Let_def)
  note T = updateParameters_postcondition [where w = ?w and w' = w', THEN conjunct1, THEN mp, OF u]
  have t: "spec_term1 ?w 0 = 25" "spec_term2 ?w 0 = 4" "spec_term3 ?w 0 = 0" "spec_term4 ?w 0 = 10"
    by (simp_all add: spec_term1_def spec_term2_def spec_term3_def spec_term4_def example_tau_def)
  have p: "P_b (tau example_tau) 0 = 1" by (simp add: example_tau_def)
  have b: "Q_b (tau w') 0 = 21 / 2"
    using T [THEN conjunct1, rule_format, of 0] p by (simp add: t)
  have "Some (Q_a (tau w')) = Some (\<lambda>d. 1)"
    using T [THEN conjunct2, THEN conjunct1] q by simp
  then have a: "Q_a (tau w') 0 = 1" by simp
  show ?thesis using u a b by blast
qed

lemma sum_list_cong_upt:
  "(\<And>d. d < D \<Longrightarrow> f d = g d) \<Longrightarrow> (\<Sum>d\<leftarrow>[0..<D]. f d) = (\<Sum>d\<leftarrow>[0..<D]. (g d :: real))"
  by (intro arg_cong [where f = sum_list] map_cong refl) simp

lemma TauD_calculateELBO_Some:
  assumes "lbconst (tau w) = Some c"
  shows "TauD_calculateELBO lgamma w = Inr
      ((c + (\<Sum>d\<leftarrow>[0..<shape_D w]. (P_a (tau w) d - 1) * Q_lnE (tau w) d)
          - (\<Sum>d\<leftarrow>[0..<shape_D w]. P_b (tau w) d * Q_E (tau w) d))
       - ((\<Sum>d\<leftarrow>[0..<shape_D w]. Q_a (tau w) d * ln (Q_b (tau w) d))
          + (\<Sum>d\<leftarrow>[0..<shape_D w]. (Q_a (tau w) d - 1) * Q_lnE (tau w) d)
          - (\<Sum>d\<leftarrow>[0..<shape_D w]. Q_b (tau w) d * Q_E (tau w) d)
          - (\<Sum>d\<leftarrow>[0..<shape_D w]. lgamma (Q_a (tau w) d))))"
  using assms by (simp add: TauD_calculateELBO_def Let_def np_sum_def)

lemma TauD_calculateELBO_same:
  assumes c: "lbconst (tau w) = Some c"
    and eq: "\<forall>d<shape_D w. Q_a (tau w) d = P_a (tau w) d \<and> Q_b (tau w) d = P_b (tau w) d"
  shows "TauD_calculateELBO lgamma w = Inr
      (c - (\<Sum>d\<leftarrow>[0..<shape_D w]. P_a (tau w) d * ln (P_b (tau w) d) - lgamma (P_a (tau w) d)))"
proof -
  let ?D = "shape_D w"
  have 1: "(\<Sum>d\<leftarrow>[0..<?D]. Q_a (tau w) d * ln (Q_b (tau w) d))
         = (\<Sum>d\<leftarrow>[0..<?D]. P_a (tau w) d * ln (P_b (tau w) d))"
    using eq by (intro sum_list_cong_upt) simp
  have 2: "(\<Sum>d\<leftarrow>[0..<?D]. (Q_a (tau w) d - 1) * Q_lnE (tau w) d)
         = (\<Sum>d\<leftarrow>[0..<?D]. (P_a (tau w) d - 1) * Q_lnE (tau w) d)"
    using eq by (intro sum_list_cong_upt) simp
  have 3: "(\<Sum>d\<leftarrow>[0..<?D]. Q_b (tau w) d * Q_E (tau w) d)
         = (\<Sum>d\<leftarrow>[0..<?D]. P_b (tau w) d * Q_E (tau w) d)"
    using eq by (intro sum_list_cong_upt) simp
  have 4: "(\<Sum>d\<leftarrow>[0..<?D]. lgamma (Q_a (tau w) d)) = (\<Sum>d\<leftarrow>[0..<?D]. lgamma (P_a (tau w) d))"
    using eq by (intro sum_list_cong_upt) simp
  show ?thesis
    unfolding TauD_calculateELBO_Some [OF c] 1 2 3 4 sum_list_minus by simp
qed

text \<open>
  Claim C6: \<open>calculateELBO\<close> returns \<open>lb_p - lb_q\<close> with the two sums of the
  claim; when \<open>Q\<close> has the parameters of \<open>P\<close> the terms with the expectations cancel
  and the result is \<open>lbconst - \<Sum>(a_P ln b_P - ln\<Gamma>(a_P))\<close>, which no longer depends on
  the expectations or the data, and which is 0 for the \<open>lbconst\<close> that \<open>precompute\<close>
  stores.
\<close>

theorem TauD_calculateELBO_formula:
  "(lbconst (tau w) = Some c \<longrightarrow>
      TauD_calculateELBO lgamma w = Inr
        ((c + (\<Sum>d\<leftarrow>[0..<shape_D w]. (P_a (tau w) d - 1) * Q_lnE (tau w) d)
            - (\<Sum>d\<leftarrow>[0..<shape_D w]. P_b (tau w) d * Q_E (tau w) d))
         - ((\<Sum>d\<leftarrow>[0..<shape_D w]. Q_a (tau w) d * ln (Q_b (tau w) d))
            + (\<Sum>d\<leftarrow>[0..<shape_D w]. (Q_a (tau w) d - 1) * Q_lnE (tau w) d)
            - (\<Sum>d\<leftarrow>[0..<shape_D w]. Q_b (tau w) d * Q_E (tau w) d)
            - (\<Sum>d\<leftarrow>[0..<shape_D w]. lgamma (Q_a (tau w) d)))))
   \<and> (lbconst (tau w) = Some c
        \<and> (\<forall>d<shape_D w. Q_a (tau w) d = P_a (tau w) d \<and> Q_b (tau w) d = P_b (tau w) d) \<longrightarrow>
      TauD_calculateELBO lgamma w = Inr
        (c - (\<Sum>d\<leftarrow>[0..<shape_D w]. P_a (tau w) d * ln (P_b (tau w) d) - lgamma (P_a (tau w) d))))
   \<and> ((\<forall>d<shape_D w. Q_a (tau w) d = P_a (tau w) d \<and> Q_b (tau w) d = P_b (tau w) d) \<longrightarrow>
      TauD_calculateELBO lgamma (TauD_precompute lgamma g w) = Inr 0)"
proof (intro conjI impI)
  assume "lbconst (tau w) = Some c"
  then show "TauD_calculateELBO lgamma w = Inr
        ((c + (\<Sum>d\<leftarrow>[0..<shape_D w]. (P_a (tau w) d - 1) * Q_lnE (tau w) d)
            - (\<Sum>d\<leftarrow>[0..<shape_D w]. P_b (tau w) d * Q_E (tau w) d))
         - ((\<Sum>d\<leftarrow>[0..<shape_D w]. Q_a (tau w) d * ln (Q_b (tau w) d))
            + (\<Sum>d\<leftarrow>[0..<shape_D w]. (Q_a (tau w) d - 1) * Q_lnE (tau w) d)
            - (\<Sum>d\<leftarrow>[0..<shape_D w]. Q_b (tau w) d * Q_E (tau w) d)
            - (\<Sum>d\<leftarrow>[0..<shape_D w]. lgamma (Q_a (tau w) d))))"
    by (rule TauD_calculateELBO_Some)
next
  assume "lbconst (tau w) = Some c
        \<and> (\<forall>d<shape_D w. Q_a (tau w) d = P_a (tau w) d \<and> Q_b (tau w) d = P_b (tau w) d)"
  then show "TauD_calculateELBO lgamma w = Inr
        (c - (\<Sum>d\<leftarrow>[0..<shape_D w]. P_a (tau w) d * ln (P_b (tau w) d) - lgamma (P_a (tau w) d)))"
    by (intro TauD_calculateELBO_same) simp_all
next
  assume eq: "\<forall>d<shape_D w. Q_a (tau w) d = P_a (tau w) d \<and> Q_b (tau w) d = P_b (tau w) d"
  let ?w = "TauD_precompute lgamma g w"
  have f: "tau ?w = (tau w)\<lparr>tau_N := Some (shape_N w),
        lbconst := Some (\<Sum>d\<leftarrow>[0..<shape_D w]. P_a (tau w) d * ln (P_b (tau w) d) - lgamma (P_a (tau w) d)),
        Qa_pre := Some (\<lambda>d. P_a (tau w) d
            + (real (shape_N w) - real (count_axis0 (shape_N w) (Y_msk w) d)) / 2)\<rparr>"
    "shape_D ?w = shape_D w"
    by (simp_all add: TauD_precompute_def Y_getExpectation_def Let_def np_sum_def)
  have c: "lbconst (tau ?w)
      = Some (\<Sum>d\<leftarrow>[0..<shape_D w]. P_a (tau w) d * ln (P_b (tau w) d) - lgamma (P_a (tau w) d))"
    by (simp add: f)
  have e: "\<forall>d<shape_D ?w. Q_a (tau ?w) d = P_a (tau ?w) d \<and> Q_b (tau ?w) d = P_b (tau ?w) d"
    using eq by (simp add: f)
  show "TauD_calculateELBO lgamma ?w = Inr 0"
    unfolding TauD_calculateELBO_same [OF c e] by (simp add: f)
qed

theorem TauD_calculateELBO_formula_witness:
  "TauD_calculateELBO (\<lambda>x. x) example_tau = Inr 1
   \<and> TauD_calculateELBO (\<lambda>x. x) (TauD_precompute (\<lambda>x. x) False example_tau) = Inr 0"
proof -
  have c: "lbconst (tau example_tau) = Some 0" by (simp add: example_tau_def)
  have e: "\<forall>d<shape_D example_tau. Q_a (tau example_tau) d = P_a (tau example_tau) d
             \<and> Q_b (tau example_tau) d = P_b (tau example_tau) d"
    by (simp add: example_tau_def)
  note T = TauD_calculateELBO_formula [where w = example_tau and c = 0 and lgamma = "\<lambda>x. x"
      and g = False]
  have 1: "TauD_calculateELBO (\<lambda>x. x) example_tau = Inr 1"
    using T [THEN conjunct2, THEN conjunct1, THEN mp, OF conjI [OF c e]]
    by (simp add: example_tau_def)
  have 2: "TauD_calculateELBO (\<lambda>x. x) (TauD_precompute (\<lambda>x. x) False example_tau) = Inr 0"
    using T [THEN conjunct2, THEN conjunct2, THEN mp, OF e] .
  show ?thesis using 1 2 by (rule conjI)
qed




section \<open>Mini-batches: an epoch on doubles can leave a sample out\<close>

lemma third_batches:
  "\<lceil>fl (1 / fl (1 / 3))\<rceil> = 3
   \<and> fl (fl (1 / 3) * 7) * 3 < 7
   \<and> py_int (fl (fl (fl (1 / 3) * 7) * 3)) = 6"
  by code_simp

lemma spec_example_bounds:
  "\<lceil>fl (1 / fl (3 / 10))\<rceil> = 4
   \<and> map (\<lambda>b. py_int (fl (fl (fl (3 / 10) * 97) * real_of_int b))) [0, 1, 2, 3, 4]
       = [0, 29, 58, 87, 116]"
  by code_simp

lemma seven_call_1:
  "sample_mini_batch_no_replace example_methods third_options [0, 1, 2, 3, 4, 5, 6] 1 seven_net
     = Inr (([0, 1], 0), seven_net\<lparr>shuffled_ix := Some [0, 1, 2, 3, 4, 5, 6]\<rparr>)"
  by code_simp

lemma seven_call_2:
  "sample_mini_batch_no_replace example_methods third_options [0, 1, 2, 3, 4, 5, 6] 2
       (seven_net\<lparr>shuffled_ix := Some [0, 1, 2, 3, 4, 5, 6]\<rparr>)
     = Inr (([2, 3], 0), seven_net\<lparr>shuffled_ix := Some [0, 1, 2, 3, 4, 5, 6]\<rparr>)"
  by code_simp

lemma seven_call_3:
  "sample_mini_batch_no_replace example_methods third_options [0, 1, 2, 3, 4, 5, 6] 3
       (seven_net\<lparr>shuffled_ix := Some [0, 1, 2, 3, 4, 5, 6]\<rparr>)
     = Inr (([4, 5], 0), seven_net\<lparr>shuffled_ix := Some [0, 1, 2, 3, 4, 5, 6]\<rparr>)"
  by code_simp

lemma seven_call_4:
  "sample_mini_batch_no_replace example_methods third_options [0, 1, 2, 3, 4, 5, 6] 4
       (seven_net\<lparr>shuffled_ix := Some [0, 1, 2, 3, 4, 5, 6]\<rparr>)
     = Inr (([0, 1], 1), seven_net\<lparr>shuffled_ix := Some [0, 1, 2, 3, 4, 5, 6]\<rparr>)"
  by code_simp

lemma sample_calls_four:
  "sample_calls nm opts perms i 4 bn = sample_calls nm opts perms i (Suc (Suc (Suc (Suc 0)))) bn"
proof -
  have "(4 :: nat) = Suc (Suc (Suc (Suc 0)))" by simp
  then show ?thesis by (simp only:)
qed

text \<open>
  Claim C4: each epoch draws one permutation of the \<open>N\<close> sample indices and hands it
  out in \<open>\<lceil>1/batch_size\<rceil>\<close> consecutive chunks, one per iteration, and the chunks of
  an epoch are meant to be pairwise disjoint and to cover \<open>[0, N)\<close>. On doubles they
  do not always cover it. With seven samples and batch size one third, the first call
  draws the permutation and the epoch has three batches, the positions 0 and 1, 2 and
  3, 4 and 5 of the permutation: \<open>S = batch_size * N\<close> is rounded below seven thirds
  and \<open>S * 3\<close> below 7, so the last bound is \<open>int(6.99\<dots>) = 6\<close>. The sample at
  position 6 is in no batch of the epoch, and the fourth call starts the next epoch.
\<close>

theorem sample_epoch_misses_last_sample:
  "sample_calls example_methods third_options (\<lambda>i. [0, 1, 2, 3, 4, 5, 6]) 1 4 seven_net
     = Inr ([([0, 1], 0), ([2, 3], 0), ([4, 5], 0), ([0, 1], 1)],
            seven_net\<lparr>shuffled_ix := Some [0, 1, 2, 3, 4, 5, 6]\<rparr>)
   \<and> dim_N seven_net = 7
   \<and> \<lceil>fl (1 / fl (batch_size third_options))\<rceil> = 3
   \<and> 6 \<notin> set ([0, 1] @ [2, 3] @ [4, 5 :: nat])"
proof -
  have a: "(1 :: int) + 1 = 2" "(2 :: int) + 1 = 3" "(3 :: int) + 1 = 4" by simp_all
  have c: "sample_calls example_methods third_options (\<lambda>i. [0, 1, 2, 3, 4, 5, 6]) 1 4 seven_net
     = Inr ([([0, 1], 0), ([2, 3], 0), ([4, 5], 0), ([0, 1], 1)],
            seven_net\<lparr>shuffled_ix := Some [0, 1, 2, 3, 4, 5, 6]\<rparr>)"
    by (subst sample_calls_four)
      (simp only: sample_calls.simps seven_call_1 seven_call_2 seven_call_3 seven_call_4 a
        sum.case prod.case)
  have d: "dim_N seven_net = 7" by (simp add: seven_net_def example_net_def)
  have b: "\<lceil>fl (1 / fl (batch_size third_options))\<rceil> = 3"
    using third_batches by (simp add: third_options_def)
  show ?thesis using c d b by simp
qed

end
